theory Spec2Isabelle
  imports Complex_Main
begin

section \<open>JavaScript values used by the services\<close>

text \<open>
  A string is a list of code units.  The empty string is the only falsy string, and a
  missing property (\<^verbatim>\<open>undefined\<close>) is falsy as well, so a string property that may be
  absent is modelled by a string that may be empty: \<^verbatim>\<open>a || b\<close> takes the same branch
  for both.
\<close>

definition js_or :: "string \<Rightarrow> string \<Rightarrow> string" where
  "js_or a b = (if a = [] then b else a)"

text \<open>
  A Number is NaN, an infinity or a finite value; the finite doubles are taken among
  the reals.
\<close>

datatype js_number = NaN | Finite real | PosInfinity | NegInfinity

text \<open>
  The values that reach the time and memory limits of an execution: a number (from the
  \<^verbatim>\<open>languages\<close> table, from \<^verbatim>\<open>parseInt\<close>, which yields NaN on a text without leading
  digits, or from a JSON body), \<^verbatim>\<open>undefined\<close> (a field the body does not have),
  \<^verbatim>\<open>null\<close>, a boolean, and a string or an object such as an array.  The code only
  compares a limit with a number, which converts it with ToNumber; the conversion of a
  string or an object depends on that value alone, and \<open>ConvertsTo n\<close> stands for any
  such value that converts to \<open>n\<close>: \<^verbatim>\<open>'abc'\<close> and \<^verbatim>\<open>{}\<close> are \<open>ConvertsTo NaN\<close>,
  \<^verbatim>\<open>'5000'\<close> and \<^verbatim>\<open>[5000]\<close> are \<open>ConvertsTo (Finite 5000)\<close>.  Values whose comparison
  with a number throws (a symbol, an object with a throwing \<^verbatim>\<open>valueOf\<close>) cannot come
  from any of these sources and are left out.
\<close>

datatype js_value =
    Undefined
  | Null
  | Boolean bool
  | Number js_number
  | ConvertsTo js_number

fun ToNumber :: "js_value \<Rightarrow> js_number" where
  "ToNumber Undefined = NaN"
| "ToNumber Null = Finite 0"
| "ToNumber (Boolean b) = (if b then Finite 1 else Finite 0)"
| "ToNumber (Number n) = n"
| "ToNumber (ConvertsTo n) = n"

text \<open>
  \<^verbatim>\<open>x < y\<close> on Numbers.  A comparison with NaN on either side is undefined, and
  \<^verbatim>\<open><\<close> turns undefined into false.
\<close>

fun number_less :: "js_number \<Rightarrow> js_number \<Rightarrow> bool" where
  "number_less NaN y = False"
| "number_less x NaN = False"
| "number_less (Finite a) (Finite b) = (a < b)"
| "number_less (Finite a) PosInfinity = True"
| "number_less (Finite a) NegInfinity = False"
| "number_less PosInfinity y = False"
| "number_less NegInfinity (Finite b) = True"
| "number_less NegInfinity PosInfinity = True"
| "number_less NegInfinity NegInfinity = False"

text \<open>
  \<^verbatim>\<open>v < n\<close> and \<^verbatim>\<open>v > n\<close> for a value \<open>v\<close> and a Number \<open>n\<close>: both convert \<open>v\<close> with
  ToNumber, and \<^verbatim>\<open>v > n\<close> is \<^verbatim>\<open>n < v\<close> with the operands evaluated in the order
  written.
\<close>

definition js_less :: "js_value \<Rightarrow> js_number \<Rightarrow> bool" where
  "js_less v n = number_less (ToNumber v) n"

definition js_greater :: "js_value \<Rightarrow> js_number \<Rightarrow> bool" where
  "js_greater v n = number_less n (ToNumber v)"

text \<open>A whole number as a JavaScript value.\<close>

abbreviation js_int :: "int \<Rightarrow> js_value" where
  "js_int i \<equiv> Number (Finite (real_of_int i))"

text \<open>Decimal printing of a number inside a template string.\<close>

definition digit :: "nat \<Rightarrow> char" where
  "digit d = ''0123456789'' ! d"

fun decimal :: "nat \<Rightarrow> string" where
  "decimal n = (if 10 \<le> n then decimal (n div 10) @ [digit (n mod 10)] else [digit n])"

declare decimal.simps [simp del]

definition decimal_int :: "int \<Rightarrow> string" where
  "decimal_int i = (if 0 \<le> i then decimal (nat i) else CHR ''-'' # decimal (nat (- i)))"

text \<open>\<^verbatim>\<open>errors.join(', ')\<close>.\<close>

fun join :: "string list \<Rightarrow> string \<Rightarrow> string" where
  "join [] sep = []"
| "join [x] sep = x"
| "join (x # y # ys) sep = x @ sep @ join (y # ys) sep"

text \<open>
  The value of \<^verbatim>\<open>error.code\<close> of a rejected child process and of \<^verbatim>\<open>exit_code\<close> in
  an outcome: a number (the exit status), a string (a system error name such as ENOENT)
  or null (also standing for an absent property).
\<close>

datatype js_code = CodeNum int | CodeStr string | CodeNull

text \<open>\<^verbatim>\<open>error.code || 1\<close>: zero, the empty string and null are falsy.\<close>

fun code_or_1 :: "js_code \<Rightarrow> js_code" where
  "code_or_1 (CodeNum n) = (if n = 0 then CodeNum 1 else CodeNum n)"
| "code_or_1 (CodeStr s) = (if s = [] then CodeNum 1 else CodeStr s)"
| "code_or_1 CodeNull = CodeNum 1"

text \<open>
  An Error object with the properties the services read: \<^verbatim>\<open>message\<close>; \<^verbatim>\<open>stdout\<close>,
  \<^verbatim>\<open>stderr\<close>, \<^verbatim>\<open>code\<close> and \<^verbatim>\<open>killed\<close>, which \<^verbatim>\<open>child_process.exec\<close> sets on a
  rejection; \<^verbatim>\<open>status\<close> and \<^verbatim>\<open>retryAfter\<close>, which the admission sets on a rate-limit
  error.
\<close>

record js_error =
  message :: string
  err_stdout :: string
  err_stderr :: string
  err_code :: js_code
  err_killed :: bool
  err_status :: "int option"
  err_retryAfter :: "int option"

text \<open>\<^verbatim>\<open>new Error(msg)\<close>.\<close>

definition new_Error :: "string \<Rightarrow> js_error" where
  "new_Error msg =
     \<lparr> message = msg, err_stdout = [], err_stderr = [], err_code = CodeNull,
       err_killed = False, err_status = None, err_retryAfter = None \<rparr>"

section \<open>Durable store\<close>

datatype session_status = ACTIVE | INACTIVE

datatype execution_status = QUEUED | RUNNING | COMPLETED | FAILED | TIMEOUT

text \<open>
  Rows of the tables of \<^verbatim>\<open>schema.sql\<close>, with the columns the modelled code reads or
  writes.  Timestamps are milliseconds since the epoch.  A nullable column is an option.
  The scan and the Runner read only \<^verbatim>\<open>language.runtime\<close> and are also called with the
  object \<^verbatim>\<open>{ runtime: 'node' }\<close>, so a language row extends that object.
\<close>

record runtime_object =
  runtime :: string

record language = runtime_object +
  l_id :: int

record session =
  s_id :: string
  s_language_id :: int
  s_status :: session_status
  s_source_code :: string

record execution =
  e_id :: string
  e_session_id :: string
  e_status :: execution_status
  e_stdout :: "string option"
  e_stderr :: "string option"
  e_execution_time_ms :: "int option"
  e_exit_code :: js_code
  e_created_at :: int
  e_started_at :: "int option"
  e_finished_at :: "int option"
  e_timeout :: bool

text \<open>
  \<^verbatim>\<open>libs/db.js\<close>: \<^verbatim>\<open>query\<close> logs and rethrows whatever the driver throws.  Whether a
  statement fails (connection loss, statement timeout, a constraint the row violates) is
  decided by the environment: each call site takes the fault, if any, as an argument.
\<close>

definition query :: "js_error option \<Rightarrow> 'a \<Rightarrow> js_error + 'a" where
  "query fault res = (case fault of Some e \<Rightarrow> Inl e | None \<Rightarrow> Inr res)"

section \<open>Safety gate: parameter validation\<close>

text \<open>
  \<^verbatim>\<open>SafetyService.validateExecutionParams(timeLimit, memoryLimit, language)\<close> collects
  one message per parameter that lies outside its range and reports
  \<^verbatim>\<open>{ valid: errors.length === 0, errors }\<close>.  It does not check the type of its
  arguments: each is whatever the caller passes and enters the four comparisons as it
  is.  The third argument is never read.
\<close>

definition MAX_TIME_LIMIT :: js_number where "MAX_TIME_LIMIT = Finite 60000"
definition MIN_TIME_LIMIT :: js_number where "MIN_TIME_LIMIT = Finite 100"
definition MAX_MEMORY_LIMIT :: js_number where "MAX_MEMORY_LIMIT = Finite 2048"
definition MIN_MEMORY_LIMIT :: js_number where "MIN_MEMORY_LIMIT = Finite 32"

definition time_limit_message :: string where
  "time_limit_message = ''Time limit must be between 100ms and 60000ms''"

definition memory_limit_message :: string where
  "memory_limit_message = ''Memory limit must be between 32MB and 2048MB''"

record validation =
  valid :: bool
  errors :: "string list"

definition validateExecutionParams :: "js_value \<Rightarrow> js_value \<Rightarrow> validation" where
  "validateExecutionParams timeLimit memoryLimit =
     (let errors0 = [];
          errors1 = (if js_less timeLimit MIN_TIME_LIMIT \<or> js_greater timeLimit MAX_TIME_LIMIT
                     then errors0 @ [time_limit_message] else errors0);
          errors2 = (if js_less memoryLimit MIN_MEMORY_LIMIT
                        \<or> js_greater memoryLimit MAX_MEMORY_LIMIT
                     then errors1 @ [memory_limit_message] else errors1)
      in \<lparr> valid = (length errors2 = 0), errors = errors2 \<rparr>)"

section \<open>Safety gate: abuse check\<close>

definition ABUSE_CHECK_WINDOW :: int where "ABUSE_CHECK_WINDOW = 60"
definition MAX_EXECUTIONS_PER_MINUTE :: int where "MAX_EXECUTIONS_PER_MINUTE = 10"
definition MAX_FAILED_ATTEMPTS :: int where "MAX_FAILED_ATTEMPTS = 5"

record abuse_check =
  allowed :: bool
  reason :: "string option"
  retryAfter :: "int option"

text \<open>
  The statement of \<^verbatim>\<open>checkExecutionAbuse\<close>:
  \<^verbatim>\<open>SELECT COUNT(*) as count, SUM(CASE WHEN status = 'FAILED' THEN 1 ELSE 0 END) as failed_count
   FROM executions WHERE session_id = $1 AND created_at > to_timestamp($2)\<close>.
  \<^verbatim>\<open>to_timestamp\<close> takes seconds since the epoch; \<^verbatim>\<open>SUM\<close> over no rows is NULL.
\<close>

definition to_timestamp :: "int \<Rightarrow> int" where
  "to_timestamp seconds = seconds * 1000"

definition abuse_counts :: "execution list \<Rightarrow> string \<Rightarrow> int \<Rightarrow> nat \<times> nat option" where
  "abuse_counts rows sessionId windowStart =
     (let selected = filter (\<lambda>r. e_session_id r = sessionId \<and>
                                 e_created_at r > to_timestamp windowStart) rows
      in (length selected,
          if selected = [] then None
          else Some (length (filter (\<lambda>r. e_status r = FAILED) selected))))"

text \<open>
  \<^verbatim>\<open>SafetyService.checkExecutionAbuse(sessionId)\<close>.  \<open>Date_now\<close> is the reading of
  \<^verbatim>\<open>Date.now()\<close> in milliseconds; \<open>fault\<close> is the failure of the query, if it fails:
  the \<^verbatim>\<open>catch\<close> turns any failure into \<^verbatim>\<open>{ allowed: true }\<close>.
\<close>

definition checkExecutionAbuse ::
  "int \<Rightarrow> js_error option \<Rightarrow> execution list \<Rightarrow> string \<Rightarrow> abuse_check" where
  "checkExecutionAbuse Date_now fault rows sessionId =
     (let now = Date_now div 1000;
          windowStart = now - ABUSE_CHECK_WINDOW
      in case query fault (abuse_counts rows sessionId windowStart) of
           Inl error \<Rightarrow> \<lparr> allowed = True, reason = None, retryAfter = None \<rparr>
         | Inr (count, failed_count) \<Rightarrow>
             (let failedCount = (case failed_count of None \<Rightarrow> 0 | Some n \<Rightarrow> n)
              in if int count \<ge> MAX_EXECUTIONS_PER_MINUTE then
                   \<lparr> allowed = False,
                     reason = Some (''Rate limit exceeded: '' @ decimal count @ ''/'' @
                                    decimal (nat MAX_EXECUTIONS_PER_MINUTE) @
                                    '' executions in '' @
                                    decimal (nat ABUSE_CHECK_WINDOW) @ ''s''),
                     retryAfter = Some ABUSE_CHECK_WINDOW \<rparr>
                 else if int failedCount \<ge> MAX_FAILED_ATTEMPTS then
                   \<lparr> allowed = False,
                     reason = Some (''Too many failed attempts: '' @ decimal failedCount @
                                    ''/'' @ decimal (nat MAX_FAILED_ATTEMPTS)),
                     retryAfter = Some ABUSE_CHECK_WINDOW \<rparr>
                 else \<lparr> allowed = True, reason = None, retryAfter = None \<rparr>))"

section \<open>Safety gate: loop-pattern scan\<close>

text \<open>
  The regular expressions of \<^verbatim>\<open>detectInfiniteLoopPatterns\<close> are sequences of single
  characters and the classes \<^verbatim>\<open>\s\<close> and \<^verbatim>\<open>\w\<close>, each taken once or under \<^verbatim>\<open>+\<close> or
  \<^verbatim>\<open>*\<close>; all carry the flags \<^verbatim>\<open>gi\<close>.  A literal is compared without regard to ASCII
  case (flag \<^verbatim>\<open>i\<close>).  Code units are limited to 0..255 here, where \<^verbatim>\<open>\s\<close> is tab, line
  feed, vertical tab, form feed, carriage return, space and no-break space.
\<close>

datatype atom = Chr char | Space | WordCh

datatype quant = One | Plus | Star

type_synonym piece = "atom \<times> quant"

definition lit :: "string \<Rightarrow> piece list" where
  "lit s = map (\<lambda>c. (Chr c, One)) s"

definition ascii_upper :: string where "ascii_upper = ''ABCDEFGHIJKLMNOPQRSTUVWXYZ''"
definition ascii_lower :: string where "ascii_lower = ''abcdefghijklmnopqrstuvwxyz''"
definition ascii_digits :: string where "ascii_digits = ''0123456789''"

definition lower_char :: "char \<Rightarrow> char" where
  "lower_char c = (case map_of (zip ascii_upper ascii_lower) c of Some d \<Rightarrow> d | None \<Rightarrow> c)"

definition is_space :: "char \<Rightarrow> bool" where
  "is_space c = (c \<in> set [CHR 0x09, CHR 0x0A, CHR 0x0B, CHR 0x0C, CHR 0x0D, CHR 0x20, CHR 0xA0])"

definition is_word :: "char \<Rightarrow> bool" where
  "is_word c = (c \<in> set (ascii_upper @ ascii_lower @ ascii_digits @ ''_''))"

fun atom_ok :: "atom \<Rightarrow> char \<Rightarrow> bool" where
  "atom_ok (Chr a) c = (lower_char a = lower_char c)"
| "atom_ok Space c = is_space c"
| "atom_ok WordCh c = is_word c"

text \<open>
  Matching at the start of a string, with the backtracking order of the language: a
  quantifier first takes as many characters as it can and gives them back one at a time.
  The result is the number of characters of the match.
\<close>

fun match_here :: "piece list \<Rightarrow> string \<Rightarrow> nat option" where
  "match_here [] s = Some 0"
| "match_here ((a, One) # ps) [] = None"
| "match_here ((a, One) # ps) (c # cs) =
     (if atom_ok a c then map_option Suc (match_here ps cs) else None)"
| "match_here ((a, Plus) # ps) [] = None"
| "match_here ((a, Plus) # ps) (c # cs) =
     (if atom_ok a c then map_option Suc (match_here ((a, Star) # ps) cs) else None)"
| "match_here ((a, Star) # ps) [] = match_here ps []"
| "match_here ((a, Star) # ps) (c # cs) =
     (if atom_ok a c then
        (case match_here ((a, Star) # ps) cs of
           Some n \<Rightarrow> Some (Suc n)
         | None \<Rightarrow> match_here ps (c # cs))
      else match_here ps (c # cs))"

text \<open>The leftmost match in a string: the offset of its end.\<close>

fun find_match :: "piece list \<Rightarrow> string \<Rightarrow> nat option" where
  "find_match ps [] = match_here ps []"
| "find_match ps (c # cs) =
     (case match_here ps (c # cs) of
        Some n \<Rightarrow> Some n
      | None \<Rightarrow> map_option Suc (find_match ps cs))"

text \<open>
  A RegExp object: its pattern and the mutable \<^verbatim>\<open>lastIndex\<close>.  With the flag \<^verbatim>\<open>g\<close>,
  \<^verbatim>\<open>test\<close> searches from \<^verbatim>\<open>lastIndex\<close>, stores the end of the match there when it
  finds one and resets it to 0 when it finds none.
\<close>

record regexp =
  re_pieces :: "piece list"
  lastIndex :: nat

definition test :: "regexp \<Rightarrow> string \<Rightarrow> bool \<times> regexp" where
  "test r s =
     (if lastIndex r > length s then (False, r\<lparr>lastIndex := 0\<rparr>)
      else case find_match (re_pieces r) (drop (lastIndex r) s) of
             None \<Rightarrow> (False, r\<lparr>lastIndex := 0\<rparr>)
           | Some n \<Rightarrow> (True, r\<lparr>lastIndex := lastIndex r + n\<rparr>))"

text \<open>\<^verbatim>\<open>pattern.toString()\<close>: the source between slashes, then the flags.\<close>

fun atom_source :: "atom \<Rightarrow> string" where
  "atom_source (Chr c) = (if c \<in> set ''()'' then [CHR 0x5C, c] else [c])"
| "atom_source Space = [CHR 0x5C, CHR ''s'']"
| "atom_source WordCh = [CHR 0x5C, CHR ''w'']"

fun quant_source :: "quant \<Rightarrow> string" where
  "quant_source One = []"
| "quant_source Plus = ''+''"
| "quant_source Star = ''*''"

definition toString :: "regexp \<Rightarrow> string" where
  "toString r =
     ''/'' @ concat (map (\<lambda>(a, q). atom_source a @ quant_source q) (re_pieces r)) @ ''/gi''"

text \<open>
  The heap of RegExp objects of the process: an address is an index.  Evaluating a
  regular expression literal allocates a new object with \<^verbatim>\<open>lastIndex\<close> 0.
\<close>

type_synonym heap = "regexp list"

definition new_RegExp :: "piece list \<Rightarrow> heap \<Rightarrow> nat \<times> heap" where
  "new_RegExp ps h = (length h, h @ [\<lparr> re_pieces = ps, lastIndex = 0 \<rparr>])"

fun new_RegExps :: "piece list list \<Rightarrow> heap \<Rightarrow> nat list \<times> heap" where
  "new_RegExps [] h = ([], h)"
| "new_RegExps (ps # pss) h =
     (let (a, h1) = new_RegExp ps h;
          (as, h2) = new_RegExps pss h1
      in (a # as, h2))"

text \<open>
  The tables of the \<^verbatim>\<open>patterns\<close> literal, in its order; the key \<^verbatim>\<open>g++\<close> lists the
  same three expressions as \<^verbatim>\<open>gcc\<close>.
\<close>

definition python_patterns :: "piece list list" where
  "python_patterns =
     [ lit ''while'' @ [(Space, Plus)] @ lit ''True'' @ [(Space, Star)] @ lit '':'',
       lit ''while'' @ [(Space, Plus)] @ lit ''1'' @ [(Space, Star)] @ lit '':'',
       lit ''for'' @ [(Space, Plus), (WordCh, Plus), (Space, Plus)] @ lit ''in'' @
         [(Space, Plus)] @ lit ''iter('' @ [(Space, Star)] @ lit ''int'' @ [(Space, Star)] @
         lit '','' @ [(Space, Star)] @ lit ''1'' @ [(Space, Star)] @ lit '')'' ]"

definition node_patterns :: "piece list list" where
  "node_patterns =
     [ lit ''while'' @ [(Space, Star)] @ lit ''('' @ [(Space, Star)] @ lit ''true'' @
         [(Space, Star)] @ lit '')'',
       lit ''while'' @ [(Space, Star)] @ lit ''('' @ [(Space, Star)] @ lit ''1'' @
         [(Space, Star)] @ lit '')'',
       lit ''for'' @ [(Space, Star)] @ lit ''('' @ [(Space, Star)] @ lit '';'' @
         [(Space, Star)] @ lit '';'' @ [(Space, Star)] @ lit '')'' ]"

definition gcc_patterns :: "piece list list" where
  "gcc_patterns =
     [ lit ''while'' @ [(Space, Star)] @ lit ''('' @ [(Space, Star)] @ lit ''1'' @
         [(Space, Star)] @ lit '')'',
       lit ''while'' @ [(Space, Star)] @ lit ''('' @ [(Space, Star)] @ lit ''true'' @
         [(Space, Star)] @ lit '')'',
       lit ''for'' @ [(Space, Star)] @ lit ''('' @ [(Space, Star)] @ lit '';'' @
         [(Space, Star)] @ lit '';'' @ [(Space, Star)] @ lit '')'' ]"

record loop_check =
  detected :: bool
  pattern :: "string option"
  loop_message :: "string option"

text \<open>
  The \<^verbatim>\<open>for\<close> loop over \<^verbatim>\<open>langPatterns\<close>: each object is tested once, in order, and
  the first that matches is reported.  \<^verbatim>\<open>test\<close> writes the object's \<^verbatim>\<open>lastIndex\<close>.
\<close>

fun scan :: "nat list \<Rightarrow> string \<Rightarrow> heap \<Rightarrow> loop_check \<times> heap" where
  "scan [] sourceCode h = (\<lparr> detected = False, pattern = None, loop_message = None \<rparr>, h)"
| "scan (a # as) sourceCode h =
     (let (found, r) = test (h ! a) sourceCode;
          h1 = h[a := r]
      in if found then
           (\<lparr> detected = True, pattern = Some (toString r),
              loop_message = Some (''Potential infinite loop detected: '' @ toString r) \<rparr>, h1)
         else scan as sourceCode h1)"

text \<open>
  A key that the \<^verbatim>\<open>patterns\<close> object inherits from \<^verbatim>\<open>Object.prototype\<close> yields a
  function or an object, which is truthy and not iterable: the \<^verbatim>\<open>for ... of\<close> throws.
\<close>

definition Object_prototype_keys :: "string list" where
  "Object_prototype_keys =
     [ ''constructor'', ''__defineGetter__'', ''__defineSetter__'', ''hasOwnProperty'',
       ''__lookupGetter__'', ''__lookupSetter__'', ''isPrototypeOf'',
       ''propertyIsEnumerable'', ''toString'', ''valueOf'', ''__proto__'',
       ''toLocaleString'' ]"

text \<open>
  \<^verbatim>\<open>SafetyService.detectInfiniteLoopPatterns(sourceCode, language)\<close>.  Every call
  evaluates the whole \<^verbatim>\<open>patterns\<close> literal, twelve regular expression literals, before
  it looks the runtime up; \<^verbatim>\<open>patterns[language.runtime] || []\<close> is the empty list for
  any other runtime.
\<close>

definition detectInfiniteLoopPatterns ::
  "string \<Rightarrow> 'a runtime_object_scheme \<Rightarrow> heap \<Rightarrow> (js_error + loop_check) \<times> heap" where
  "detectInfiniteLoopPatterns sourceCode language h =
     (let (python, h1) = new_RegExps python_patterns h;
          (node, h2) = new_RegExps node_patterns h1;
          (gcc, h3) = new_RegExps gcc_patterns h2;
          (gpp, h4) = new_RegExps gcc_patterns h3;
          patterns = [(''python'', python), (''node'', node), (''gcc'', gcc), (''g++'', gpp)]
      in case map_of patterns (runtime language) of
           Some langPatterns \<Rightarrow>
             (let (res, h5) = scan langPatterns sourceCode h4 in (Inr res, h5))
         | None \<Rightarrow>
             if runtime language \<in> set Object_prototype_keys
             then (Inl (new_Error ''langPatterns is not iterable''), h4)
             else (let (res, h5) = scan [] sourceCode h4 in (Inr res, h5)))"

section \<open>Runner\<close>

text \<open>
  \<^verbatim>\<open>String.prototype.toLowerCase\<close> and \<^verbatim>\<open>includes\<close>.  Only ASCII letters are mapped:
  no other code unit is lowered to an ASCII letter, so the search for an ASCII marker in
  the lowered text is not affected.
\<close>

definition toLowerCase :: "string \<Rightarrow> string" where
  "toLowerCase s = map lower_char s"

fun starts_with :: "string \<Rightarrow> string \<Rightarrow> bool" where
  "starts_with s [] = True"
| "starts_with [] (p # ps) = False"
| "starts_with (c # cs) (p # ps) = (c = p \<and> starts_with cs ps)"

fun js_includes :: "string \<Rightarrow> string \<Rightarrow> bool" where
  "js_includes [] sub = (sub = [])"
| "js_includes (c # cs) sub = (starts_with (c # cs) sub \<or> js_includes cs sub)"

text \<open>The RunnerOutcome object that \<^verbatim>\<open>executeCode\<close> returns.\<close>

record outcome =
  status :: execution_status
  stdout :: string
  stderr :: string
  execution_time_ms :: int
  exit_code :: js_code
  timeout :: bool

text \<open>
  \<^verbatim>\<open>execAsync\<close> resolves with the captured output when the process exits with code 0,
  and rejects with an Error otherwise (non-zero exit, kill on timeout or on output
  overflow, failure to spawn).
\<close>

datatype exec_result = Resolved string string | Rejected js_error

text \<open>
  What the file system and the child processes do is the environment's choice.  The
  Runner's effects are recorded in the order it performs them.
\<close>

record runner_env =
  tmpDir :: string
  mkdir_fault :: "js_error option"
  source_write_fault :: "js_error option"
  compile_result :: exec_result
  write_fault :: "js_error option"
  run_result :: exec_result
  run_elapsed :: int

datatype runner_step =
    Mkdir string
  | WriteFile string string
  | CompileStep string int
  | RunStep string int int
  | Rm string

definition path_join :: "string \<Rightarrow> string \<Rightarrow> string" where
  "path_join dir name = dir @ ''/'' @ name"

definition quoted :: "string \<Rightarrow> string" where
  "quoted s = [CHR 0x22] @ s @ [CHR 0x22]"

definition compile_failure :: "string \<Rightarrow> outcome" where
  "compile_failure text =
     \<lparr> status = FAILED, stdout = [], stderr = text, execution_time_ms = 0,
       exit_code = CodeNum 1, timeout = False \<rparr>"

text \<open>
  The \<^verbatim>\<open>compileOutput\<close> of a compile step that resolved:
  \<^verbatim>\<open>compileOut || compileErr || ''\<close>.  The command ends in \<^verbatim>\<open>2>&1\<close>, so the compiler's
  two streams arrive together in \<^verbatim>\<open>compileOut\<close>.
\<close>

definition compileOutput :: "string \<Rightarrow> string \<Rightarrow> string" where
  "compileOutput compileOut compileErr = js_or (js_or compileOut compileErr) []"

definition has_error_marker :: "string \<Rightarrow> bool" where
  "has_error_marker output =
     (js_includes (toLowerCase output) ''error'' \<or>
      js_includes (toLowerCase output) ''not found'')"

text \<open>
  The ways out of the \<^verbatim>\<open>switch\<close> on \<^verbatim>\<open>language.runtime\<close>: fall through to the run
  with a file name and a command, return an outcome, or throw.
\<close>

datatype switch_exit = Proceed string string | Return outcome | Throw js_error

text \<open>
  The cases \<^verbatim>\<open>'gcc'\<close> and \<^verbatim>\<open>'g++'\<close>, which differ in the compiler and the file name
  only.
\<close>

definition compile_case ::
  "runner_env \<Rightarrow> string \<Rightarrow> string \<Rightarrow> string \<Rightarrow> int \<Rightarrow> switch_exit \<times> runner_step list" where
  "compile_case env compiler fileName sourceCode timeLimit =
     (let execFile = path_join (tmpDir env) ''main'';
          w = WriteFile (path_join (tmpDir env) fileName) sourceCode;
          compileCmd = compiler @ '' -o '' @ quoted execFile @ '' '' @
                       quoted (path_join (tmpDir env) fileName) @ '' 2>&1'';
          c = CompileStep compileCmd (max timeLimit 10000);
          fallback = ''Compilation failed - '' @ compiler @ '' may not be installed''
      in case source_write_fault env of
           Some e \<Rightarrow> (Throw e, [w])
         | None \<Rightarrow>
             (case compile_result env of
                Resolved compileOut compileErr \<Rightarrow>
                  if has_error_marker (compileOutput compileOut compileErr)
                  then (Return (compile_failure
                                  (js_or (compileOutput compileOut compileErr) fallback)), [w, c])
                  else (Proceed fileName (quoted execFile), [w, c])
              | Rejected compileError \<Rightarrow>
                  (let errorMsg = js_or (message compileError) ''Compilation failed'';
                       stderr_text = js_or (js_or (err_stderr compileError)
                                                  (err_stdout compileError)) errorMsg
                   in (Return (compile_failure (js_or stderr_text fallback)), [w, c]))))"

definition switch_runtime ::
  "runner_env \<Rightarrow> 'a runtime_object_scheme \<Rightarrow> string \<Rightarrow> int \<Rightarrow> switch_exit \<times> runner_step list" where
  "switch_runtime env language sourceCode timeLimit =
     (if runtime language = ''python'' then
        (Proceed ''main.py'' (''python3 '' @ quoted (path_join (tmpDir env) ''main.py'')), [])
      else if runtime language = ''node'' then
        (Proceed ''index.js'' (''node '' @ quoted (path_join (tmpDir env) ''index.js'')), [])
      else if runtime language = ''gcc'' then
        compile_case env ''gcc'' ''main.c'' sourceCode timeLimit
      else if runtime language = ''g++'' then
        compile_case env ''g++'' ''main.cpp'' sourceCode timeLimit
      else (Throw (new_Error (''Unsupported language: '' @ runtime language)), []))"

text \<open>The outcome of the run step, by the way \<^verbatim>\<open>execAsync\<close> settled.\<close>

definition run_outcome :: "exec_result \<Rightarrow> int \<Rightarrow> outcome" where
  "run_outcome res executionTime =
     (case res of
        Resolved out err \<Rightarrow>
          \<lparr> status = COMPLETED, stdout = js_or out [], stderr = js_or err [],
            execution_time_ms = executionTime, exit_code = CodeNum 0, timeout = False \<rparr>
      | Rejected error \<Rightarrow>
          if err_killed error then
            \<lparr> status = TIMEOUT, stdout = js_or (err_stdout error) [],
              stderr = js_or (err_stderr error) ''Execution timeout'',
              execution_time_ms = executionTime, exit_code = CodeNull, timeout = True \<rparr>
          else
            \<lparr> status = FAILED, stdout = js_or (err_stdout error) [],
              stderr = js_or (err_stderr error) (message error),
              execution_time_ms = executionTime, exit_code = code_or_1 (err_code error),
              timeout = False \<rparr>)"

text \<open>The body of the outer \<^verbatim>\<open>try\<close>: an outcome returned or an error thrown.\<close>

definition executeCode_try ::
  "runner_env \<Rightarrow> 'a runtime_object_scheme \<Rightarrow> string \<Rightarrow> int \<Rightarrow> int \<Rightarrow>
   (js_error + outcome) \<times> runner_step list" where
  "executeCode_try env language sourceCode timeLimit memoryLimit =
     (case mkdir_fault env of
        Some e \<Rightarrow> (Inl e, [Mkdir (tmpDir env)])
      | None \<Rightarrow>
          (case switch_runtime env language sourceCode timeLimit of
             (Throw e, steps) \<Rightarrow> (Inl e, Mkdir (tmpDir env) # steps)
           | (Return out, steps) \<Rightarrow> (Inr out, Mkdir (tmpDir env) # steps)
           | (Proceed fileName executeCommand, steps) \<Rightarrow>
               (let w = WriteFile (path_join (tmpDir env) fileName) sourceCode
                in case write_fault env of
                     Some e \<Rightarrow> (Inl e, Mkdir (tmpDir env) # steps @ [w])
                   | None \<Rightarrow>
                       (Inr (run_outcome (run_result env) (run_elapsed env)),
                        Mkdir (tmpDir env) # steps @
                          [w, RunStep executeCommand timeLimit (memoryLimit * 1024 * 1024)]))))"

text \<open>
  \<^verbatim>\<open>CodeExecutionService.executeCode(language, sourceCode, timeLimit, memoryLimit)\<close>:
  the outer \<^verbatim>\<open>catch\<close> turns a thrown error into a FAILED outcome, and \<^verbatim>\<open>finally\<close>
  removes the scratch directory (a failure of the removal is logged only).
\<close>

definition executeCode ::
  "runner_env \<Rightarrow> 'a runtime_object_scheme \<Rightarrow> string \<Rightarrow> int \<Rightarrow> int \<Rightarrow>
   outcome \<times> runner_step list" where
  "executeCode env language sourceCode timeLimit memoryLimit =
     (case executeCode_try env language sourceCode timeLimit memoryLimit of
        (Inr out, steps) \<Rightarrow> (out, steps @ [Rm (tmpDir env)])
      | (Inl error, steps) \<Rightarrow>
          (\<lparr> status = FAILED, stdout = [], stderr = message error, execution_time_ms = 0,
             exit_code = CodeNum 1, timeout = False \<rparr>, steps @ [Rm (tmpDir env)]))"

section \<open>Store operations, queue and lifecycle events\<close>

text \<open>
  The data of \<^verbatim>\<open>Execution.updateResult(id, data)\<close>: the fields of an outcome and
  \<^verbatim>\<open>finished_at\<close>.
\<close>

record result_data = outcome +
  finished_at :: int

text \<open>
  A job of the queue \<^verbatim>\<open>code-execution\<close>: \<^verbatim>\<open>job.id\<close>, \<^verbatim>\<open>job.data\<close> and
  \<^verbatim>\<open>job.attemptsMade\<close>.
\<close>

record job =
  j_id :: string
  j_execution_id :: string
  j_session_id :: string
  j_time_limit :: int
  j_memory_limit :: int
  attemptsMade :: nat

text \<open>A lifecycle event: the execution and the stage (the metadata is not modelled).\<close>

record event =
  ev_execution_id :: string
  ev_stage :: execution_status

text \<open>The statements that changed the table \<^verbatim>\<open>executions\<close>, in the order they ran.\<close>

datatype statement =
    Insert_execution execution
  | Update_started string int
  | Update_result string result_data

text \<open>
  The state shared by the API process and the workers: the three tables, the journal of
  the writes to \<^verbatim>\<open>executions\<close>, the queue, the lifecycle events, the warnings printed
  by the admission and the RegExp objects it has allocated.
\<close>

record world =
  languages :: "language list"
  sessions :: "session list"
  executions :: "execution list"
  journal :: "statement list"
  jobs :: "job list"
  events :: "event list"
  console_warn :: "string list"
  regexps :: heap

text \<open>\<^verbatim>\<open>Session.findById\<close>: \<^verbatim>\<open>SELECT * FROM sessions WHERE id = $1\<close>, first row.\<close>

definition Session_findById :: "session list \<Rightarrow> string \<Rightarrow> session option" where
  "Session_findById rows sid = find (\<lambda>s. s_id s = sid) rows"

text \<open>
  \<^verbatim>\<open>Session.findWithLanguage\<close>: the session joined with its language; no row when the
  session or its language is missing.
\<close>

definition Session_findWithLanguage ::
  "session list \<Rightarrow> language list \<Rightarrow> string \<Rightarrow> session option" where
  "Session_findWithLanguage rows langs sid =
     find (\<lambda>s. s_id s = sid \<and> (\<exists>l \<in> set langs. l_id l = s_language_id s)) rows"

definition Language_findById :: "language list \<Rightarrow> int \<Rightarrow> language option" where
  "Language_findById langs lid = find (\<lambda>l. l_id l = lid) langs"

text \<open>
  \<^verbatim>\<open>Execution.create\<close>: \<^verbatim>\<open>INSERT INTO executions (id, session_id, status)\<close>; the other
  columns take their defaults, \<^verbatim>\<open>created_at\<close> the time of the store.
\<close>

definition inserted_row :: "string \<Rightarrow> string \<Rightarrow> execution_status \<Rightarrow> int \<Rightarrow> execution" where
  "inserted_row eid sid st NOW =
     \<lparr> e_id = eid, e_session_id = sid, e_status = st, e_stdout = None, e_stderr = None,
       e_execution_time_ms = None, e_exit_code = CodeNull, e_created_at = NOW,
       e_started_at = None, e_finished_at = None, e_timeout = False \<rparr>"

definition Execution_create ::
  "js_error option \<Rightarrow> int \<Rightarrow> string \<Rightarrow> string \<Rightarrow> execution_status \<Rightarrow> world \<Rightarrow>
   js_error + (execution \<times> world)" where
  "Execution_create fault NOW eid sid st w =
     query fault
       (inserted_row eid sid st NOW,
        w\<lparr> executions := executions w @ [inserted_row eid sid st NOW],
           journal := journal w @ [Insert_execution (inserted_row eid sid st NOW)] \<rparr>)"

text \<open>
  \<^verbatim>\<open>Execution.updateStarted\<close>:
  \<^verbatim>\<open>UPDATE executions SET status = 'RUNNING', started_at = NOW() WHERE id = $1\<close>.
  The only condition is on the id.
\<close>

definition started_row :: "int \<Rightarrow> execution \<Rightarrow> execution" where
  "started_row NOW r = r\<lparr> e_status := RUNNING, e_started_at := Some NOW \<rparr>"

definition Execution_updateStarted ::
  "js_error option \<Rightarrow> int \<Rightarrow> string \<Rightarrow> world \<Rightarrow> js_error + world" where
  "Execution_updateStarted fault NOW eid w =
     query fault
       (w\<lparr> executions := map (\<lambda>r. if e_id r = eid then started_row NOW r else r) (executions w),
           journal := journal w @ [Update_started eid NOW] \<rparr>)"

text \<open>
  \<^verbatim>\<open>Execution.updateResult\<close>:
  \<^verbatim>\<open>UPDATE executions SET status = $1, stdout = $2, stderr = $3, execution_time_ms = $4,
   exit_code = $5, timeout = $6, finished_at = $7 WHERE id = $8\<close>.
  The only condition is on the id.
\<close>

definition result_row :: "result_data \<Rightarrow> execution \<Rightarrow> execution" where
  "result_row d r =
     r\<lparr> e_status := status d, e_stdout := Some (stdout d), e_stderr := Some (stderr d),
        e_execution_time_ms := Some (execution_time_ms d), e_exit_code := exit_code d,
        e_timeout := timeout d, e_finished_at := Some (finished_at d) \<rparr>"

definition Execution_updateResult ::
  "js_error option \<Rightarrow> string \<Rightarrow> result_data \<Rightarrow> world \<Rightarrow> js_error + world" where
  "Execution_updateResult fault eid d w =
     query fault
       (w\<lparr> executions := map (\<lambda>r. if e_id r = eid then result_row d r else r) (executions w),
           journal := journal w @ [Update_result eid d] \<rparr>)"

text \<open>
  \<^verbatim>\<open>SafetyService.logExecutionEvent\<close>: pushes the event at the head of the list; a
  failure of the ephemeral store is caught and logged, and nothing is stored.
\<close>

definition logExecutionEvent :: "bool \<Rightarrow> string \<Rightarrow> execution_status \<Rightarrow> world \<Rightarrow> world" where
  "logExecutionEvent redis_down eid stage w =
     (if redis_down then w
      else w\<lparr> events := \<lparr> ev_execution_id = eid, ev_stage = stage \<rparr> # events w \<rparr>)"

text \<open>
  \<^verbatim>\<open>codeExecutionQueue.add('execute', data, { jobId })\<close>: a failure of the broker is
  thrown to the caller.
\<close>

definition queue_add :: "js_error option \<Rightarrow> job \<Rightarrow> world \<Rightarrow> js_error + world" where
  "queue_add fault j w = query fault (w\<lparr> jobs := jobs w @ [j] \<rparr>)"

section \<open>Execution admission\<close>

record submit_env =
  se_Date_now :: int
  se_abuse_fault :: "js_error option"
  se_session_fault :: "js_error option"
  se_uuid :: string
  se_create_fault :: "js_error option"
  se_NOW :: int
  se_redis_down :: bool
  se_queue_fault :: "js_error option"

record submit_result =
  execution_id :: string
  sr_status :: execution_status

text \<open>
  The loop scan of the admission: a warning is printed when a pattern is found, and
  nothing else depends on the result.
\<close>

definition loop_scan :: "session \<Rightarrow> world \<Rightarrow> js_error + world" where
  "loop_scan session w =
     (case detectInfiniteLoopPatterns (s_source_code session) \<lparr> runtime = ''node'' \<rparr> (regexps w) of
        (Inl e, h) \<Rightarrow> Inl e
      | (Inr loopCheck, h) \<Rightarrow>
          Inr (if detected loopCheck then
                 w\<lparr> regexps := h,
                    console_warn := console_warn w @
                      [''[ExecutionService] Infinite loop warning: '' @
                       (case loop_message loopCheck of Some m \<Rightarrow> m | None \<Rightarrow> ''undefined'')] \<rparr>
               else w\<lparr> regexps := h \<rparr>))"

text \<open>
  From the fresh id on: insert the row, log the QUEUED event, enqueue the job.  Nothing
  catches a failure of the insert or of the enqueue.
\<close>

definition create_and_enqueue ::
  "submit_env \<Rightarrow> string \<Rightarrow> int \<Rightarrow> int \<Rightarrow> world \<Rightarrow> (js_error + submit_result) \<times> world" where
  "create_and_enqueue env sessionId timeLimit memoryLimit w =
     (let executionId = se_uuid env
      in case Execution_create (se_create_fault env) (se_NOW env) executionId sessionId QUEUED w of
           Inl e \<Rightarrow> (Inl e, w)
         | Inr (execution, w1) \<Rightarrow>
             (let w2 = logExecutionEvent (se_redis_down env) executionId QUEUED w1
              in case queue_add (se_queue_fault env)
                        \<lparr> j_id = executionId, j_execution_id = executionId,
                          j_session_id = sessionId, j_time_limit = timeLimit,
                          j_memory_limit = memoryLimit, attemptsMade = 0 \<rparr> w2 of
                   Inl e \<Rightarrow> (Inl e, w2)
                 | Inr w3 \<Rightarrow>
                     (Inr \<lparr> execution_id = e_id execution, sr_status = e_status execution \<rparr>,
                      w3)))"

text \<open>
  \<^verbatim>\<open>ExecutionService.submitExecution(sessionId, timeLimit, memoryLimit)\<close>.  A thrown
  error is \<open>Inl\<close>.  The session is checked for existence only.  The admission is
  followed here for limits that are whole numbers, which is what the job then carries to
  the Runner; the validator receives them as JavaScript values.
\<close>

definition submitExecution ::
  "submit_env \<Rightarrow> string \<Rightarrow> int \<Rightarrow> int \<Rightarrow> world \<Rightarrow> (js_error + submit_result) \<times> world" where
  "submitExecution env sessionId timeLimit memoryLimit w =
     (let validation = validateExecutionParams (js_int timeLimit) (js_int memoryLimit)
      in if \<not> valid validation then
           (Inl (new_Error (''Validation failed: '' @ join (errors validation) '', '')), w)
         else
           (let abuseCheck = checkExecutionAbuse (se_Date_now env) (se_abuse_fault env)
                               (executions w) sessionId
            in if \<not> allowed abuseCheck then
                 (Inl ((new_Error (case reason abuseCheck of Some m \<Rightarrow> m | None \<Rightarrow> []))
                         \<lparr> err_status := Some 429, err_retryAfter := retryAfter abuseCheck \<rparr>), w)
               else
                 (case query (se_session_fault env) (Session_findById (sessions w) sessionId) of
                    Inl e \<Rightarrow> (Inl e, w)
                  | Inr None \<Rightarrow> (Inl (new_Error (''Session not found: '' @ sessionId)), w)
                  | Inr (Some session) \<Rightarrow>
                      (case loop_scan session w of
                         Inl e \<Rightarrow> (Inl e, w)
                       | Inr w1 \<Rightarrow> create_and_enqueue env sessionId timeLimit memoryLimit w1))))"

section \<open>Execution worker\<close>

record worker_env =
  we_started_fault :: "js_error option"
  we_NOW :: int
  we_redis_down :: bool
  we_session_fault :: "js_error option"
  we_language_fault :: "js_error option"
  we_runner :: runner_env
  we_result_fault :: "js_error option"
  we_new_Date :: int
  we_failed_fault :: "js_error option"

text \<open>The \<^verbatim>\<open>try\<close> block of \<^verbatim>\<open>processExecution\<close>, from the load of the session on.\<close>

definition run_and_store ::
  "worker_env \<Rightarrow> job \<Rightarrow> world \<Rightarrow> (js_error + outcome) \<times> world" where
  "run_and_store env j w =
     (case query (we_session_fault env)
             (Session_findWithLanguage (sessions w) (languages w) (j_session_id j)) of
        Inl e \<Rightarrow> (Inl e, w)
      | Inr None \<Rightarrow> (Inl (new_Error (''Session not found: '' @ j_session_id j)), w)
      | Inr (Some session) \<Rightarrow>
          (case query (we_language_fault env)
                  (Language_findById (languages w) (s_language_id session)) of
             Inl e \<Rightarrow> (Inl e, w)
           | Inr None \<Rightarrow>
               (Inl (new_Error (''Language not found: '' @ decimal_int (s_language_id session))), w)
           | Inr (Some language) \<Rightarrow>
               (let result = fst (executeCode (we_runner env) language (s_source_code session)
                                    (j_time_limit j) (j_memory_limit j))
                in case Execution_updateResult (we_result_fault env) (j_execution_id j)
                          \<lparr> status = status result, stdout = stdout result,
                            stderr = stderr result,
                            execution_time_ms = execution_time_ms result,
                            exit_code = exit_code result, timeout = timeout result,
                            finished_at = we_new_Date env \<rparr> w of
                     Inl e \<Rightarrow> (Inl e, w)
                   | Inr w1 \<Rightarrow>
                       (Inr result,
                        logExecutionEvent (we_redis_down env) (j_execution_id j)
                          (status result) w1))))"

definition processExecution_try ::
  "worker_env \<Rightarrow> job \<Rightarrow> world \<Rightarrow> (js_error + outcome) \<times> world" where
  "processExecution_try env j w =
     (case Execution_updateStarted (we_started_fault env) (we_NOW env) (j_execution_id j) w of
        Inl e \<Rightarrow> (Inl e, w)
      | Inr w1 \<Rightarrow>
          run_and_store env j (logExecutionEvent (we_redis_down env) (j_execution_id j) RUNNING w1))"

text \<open>
  \<^verbatim>\<open>processExecution(job)\<close>.  The \<^verbatim>\<open>catch\<close> logs a FAILED event, writes a FAILED row
  whose \<^verbatim>\<open>stderr\<close> is the error's message and throws the error again; when that write
  fails, its error is the one thrown.  \<open>Inr\<close> is the resolved promise, \<open>Inl\<close> the rejected
  one.
\<close>

definition processExecution ::
  "worker_env \<Rightarrow> job \<Rightarrow> world \<Rightarrow> (js_error + outcome) \<times> world" where
  "processExecution env j w =
     (case processExecution_try env j w of
        (Inr result, w1) \<Rightarrow> (Inr result, w1)
      | (Inl error, w1) \<Rightarrow>
          (let w2 = logExecutionEvent (we_redis_down env) (j_execution_id j) FAILED w1
           in case Execution_updateResult (we_failed_fault env) (j_execution_id j)
                     \<lparr> status = FAILED, stdout = [], stderr = message error,
                       execution_time_ms = 0, exit_code = CodeNum 1, timeout = False,
                       finished_at = we_new_Date env \<rparr> w2 of
                Inl e \<Rightarrow> (Inl e, w2)
              | Inr w3 \<Rightarrow> (Inl error, w3)))"

text \<open>
  The queue's reaction under the options of \<^verbatim>\<open>libs/queue.js\<close> (\<^verbatim>\<open>attempts: 3\<close>,
  exponential backoff from 2000 ms, \<^verbatim>\<open>removeOnComplete\<close>, \<^verbatim>\<open>removeOnFail: false\<close>): a
  job whose processor resolves is completed and removed; a job whose processor rejects
  is run again after the backoff while attempts remain, and is kept as failed after the
  last one.
\<close>

definition queue_attempts :: nat where "queue_attempts = 3"
definition backoff_delay :: nat where "backoff_delay = 2000"

datatype job_fate = Completed | Retried nat | Kept_failed

definition settle :: "job \<Rightarrow> (js_error + outcome) \<Rightarrow> job_fate" where
  "settle j res =
     (case res of
        Inr result \<Rightarrow> Completed
      | Inl error \<Rightarrow>
          if attemptsMade j + 1 < queue_attempts
          then Retried (backoff_delay * 2 ^ attemptsMade j)
          else Kept_failed)"

section \<open>Sample environments\<close>

text \<open>A scratch directory where every file operation succeeds.\<close>

definition sample_env :: "exec_result \<Rightarrow> exec_result \<Rightarrow> runner_env" where
  "sample_env c r =
     \<lparr> tmpDir = ''/tmp/code-exec-1'', mkdir_fault = None, source_write_fault = None,
       compile_result = c, write_fault = None, run_result = r, run_elapsed = 512 \<rparr>"

text \<open>
  A store with the language \<^verbatim>\<open>node\<close> and one session in the given status, without
  executions; an admission and a worker whose store, broker and event log are as given.
\<close>

definition sample_world :: "session_status \<Rightarrow> world" where
  "sample_world st =
     \<lparr> languages = [\<lparr> runtime = ''node'', l_id = 2 \<rparr>],
       sessions = [\<lparr> s_id = ''sess-1'', s_language_id = 2, s_status = st,
                    s_source_code = ''console.log(1)'' \<rparr>],
       executions = [], journal = [], jobs = [], events = [], console_warn = [],
       regexps = [] \<rparr>"

definition sample_submit_env :: "js_error option \<Rightarrow> submit_env" where
  "sample_submit_env queue_fault =
     \<lparr> se_Date_now = 100000, se_abuse_fault = None, se_session_fault = None,
       se_uuid = ''exec-1'', se_create_fault = None, se_NOW = 100000,
       se_redis_down = False, se_queue_fault = queue_fault \<rparr>"

definition sample_worker_env :: "exec_result \<Rightarrow> worker_env" where
  "sample_worker_env r =
     \<lparr> we_started_fault = None, we_NOW = 200000, we_redis_down = False,
       we_session_fault = None, we_language_fault = None,
       we_runner = sample_env (Resolved [] []) r, we_result_fault = None,
       we_new_Date = 200600, we_failed_fault = None \<rparr>"

text \<open>
  A worker whose load of the session fails with an error that has an empty message (as
  the aggregate of refused connections has), while its other statements succeed.
\<close>

definition refused_worker_env :: worker_env where
  "refused_worker_env =
     (sample_worker_env (Resolved ''1'' []))
       \<lparr> we_session_fault := Some ((new_Error [])\<lparr> err_code := CodeStr ''ECONNREFUSED'' \<rparr>) \<rparr>"

definition sample_job :: "string \<Rightarrow> nat \<Rightarrow> job" where
  "sample_job sid n =
     \<lparr> j_id = ''exec-1'', j_execution_id = ''exec-1'', j_session_id = sid,
       j_time_limit = 5000, j_memory_limit = 256, attemptsMade = n \<rparr>"

text \<open>
  An execution that has completed, a store that holds it, a store that holds a queued
  execution, and a store whose session was deleted together with its executions.
\<close>

definition completed_row :: execution where
  "completed_row =
     \<lparr> e_id = ''exec-1'', e_session_id = ''sess-1'', e_status = COMPLETED,
       e_stdout = Some ''1'', e_stderr = Some [], e_execution_time_ms = Some 40,
       e_exit_code = CodeNum 0, e_created_at = 100000, e_started_at = Some 100100,
       e_finished_at = Some 100200, e_timeout = False \<rparr>"

definition completed_world :: world where
  "completed_world = (sample_world ACTIVE)\<lparr> executions := [completed_row] \<rparr>"

definition queued_world :: world where
  "queued_world =
     (sample_world ACTIVE)\<lparr> executions := [inserted_row ''exec-1'' ''sess-1'' QUEUED 100000] \<rparr>"

definition orphan_world :: world where
  "orphan_world = (sample_world ACTIVE)\<lparr> sessions := [] \<rparr>"

section \<open>Notions used by the properties\<close>

text \<open>The twelve objects that one evaluation of the \<^verbatim>\<open>patterns\<close> literal allocates.\<close>

definition fresh_tables :: heap where
  "fresh_tables = map (\<lambda>ps. \<lparr> re_pieces = ps, lastIndex = 0 \<rparr>)
                    (python_patterns @ node_patterns @ gcc_patterns @ gcc_patterns)"


text \<open>The statements that ran between two states of the store.\<close>

definition new_statements :: "world \<Rightarrow> world \<Rightarrow> statement list" where
  "new_statements w w' = drop (length (journal w)) (journal w')"

text \<open>
  The errors that the file system, the child process and the store raise carry a
  message, as those of Node and of the database driver do.
\<close>

definition described :: "js_error option \<Rightarrow> bool" where
  "described fault = (case fault of None \<Rightarrow> True | Some e \<Rightarrow> message e \<noteq> [])"

definition runner_errors_described :: "runner_env \<Rightarrow> bool" where
  "runner_errors_described env =
     (described (mkdir_fault env) \<and> described (source_write_fault env) \<and>
      described (write_fault env) \<and>
      (case run_result env of Resolved out err \<Rightarrow> True | Rejected e \<Rightarrow> message e \<noteq> []))"

definition worker_errors_described :: "worker_env \<Rightarrow> bool" where
  "worker_errors_described env =
     (described (we_started_fault env) \<and> described (we_session_fault env) \<and>
      described (we_language_fault env) \<and> described (we_result_fault env) \<and>
      runner_errors_described (we_runner env))"

section \<open>Properties\<close>

subsection \<open>Parameter validation\<close>








text \<open>
  C6.  With \<open>now\<close> the whole second \<^verbatim>\<open>Math.floor(Date.now() / 1000)\<close> that the code
  computes, let \<open>recent\<close> be the executions of the session created later than
  \<open>now - 60\<close> seconds and \<open>failed\<close> those of them with status FAILED.  The check blocks
  (\<open>allowed = false\<close>) exactly when \<open>recent\<close> has at least 10 rows or \<open>failed\<close> at least
  5; it then carries a reason and \<open>retryAfter = 60\<close>, and carries neither when it allows.
  When the query itself fails the check allows.
\<close>

theorem checkExecutionAbuse_blocks_iff_and_fails_open:
  "(let recent = filter (\<lambda>r. e_session_id r = sid \<and>
                               e_created_at r > (Date_now div 1000 - 60) * 1000) rows;
        failed = filter (\<lambda>r. e_status r = FAILED) recent;
        res = checkExecutionAbuse Date_now None rows sid
    in allowed res = (\<not> (10 \<le> length recent \<or> 5 \<le> length failed))
       \<and> (reason res \<noteq> None) = (\<not> allowed res)
       \<and> retryAfter res = (if allowed res then None else Some 60))
   \<and> allowed (checkExecutionAbuse Date_now (Some e) rows sid)"
proof -
  define recent where
    "recent = filter (\<lambda>r. e_session_id r = sid \<and>
                           e_created_at r > (Date_now div 1000 - 60) * 1000) rows"
  define failed where "failed = filter (\<lambda>r. e_status r = FAILED) recent"
  define res where "res = checkExecutionAbuse Date_now None rows sid"
  have counts: "abuse_counts rows sid (Date_now div 1000 - 60) =
                  (length recent, if recent = [] then None else Some (length failed))"
    unfolding abuse_counts_def recent_def failed_def to_timestamp_def Let_def by simp
  have empty: "recent = [] \<Longrightarrow> length failed = 0"
    by (simp add: failed_def)
  have res: "res =
      (if 10 \<le> length recent then
         \<lparr> allowed = False,
           reason = Some (''Rate limit exceeded: '' @ decimal (length recent) @ ''/'' @
                          decimal 10 @ '' executions in '' @ decimal 60 @ ''s''),
           retryAfter = Some 60 \<rparr>
       else if 5 \<le> length failed then
         \<lparr> allowed = False,
           reason = Some (''Too many failed attempts: '' @ decimal (length failed) @
                          ''/'' @ decimal 5),
           retryAfter = Some 60 \<rparr>
       else \<lparr> allowed = True, reason = None, retryAfter = None \<rparr>)"
    using empty
    by (simp add: res_def checkExecutionAbuse_def query_def Let_def
        MAX_EXECUTIONS_PER_MINUTE_def MAX_FAILED_ATTEMPTS_def ABUSE_CHECK_WINDOW_def counts)
  have open_on_fault: "allowed (checkExecutionAbuse Date_now (Some e) rows sid)"
    by (simp add: checkExecutionAbuse_def query_def Let_def)
  have "allowed res = (\<not> (10 \<le> length recent \<or> 5 \<le> length failed))
        \<and> (reason res \<noteq> None) = (\<not> allowed res)
        \<and> retryAfter res = (if allowed res then None else Some 60)"
    by (simp add: res)
  then show ?thesis
    using open_on_fault unfolding recent_def failed_def res_def Let_def by simp
qed

theorem checkExecutionAbuse_witness:
  "\<not> allowed (checkExecutionAbuse 100000 None
       (replicate 10 (inserted_row ''e'' ''s'' QUEUED 99000)) ''s'')
   \<and> allowed (checkExecutionAbuse 100000 None
       (replicate 9 (inserted_row ''e'' ''s'' QUEUED 99000)) ''s'')
   \<and> \<not> allowed (checkExecutionAbuse 100000 None
       (replicate 5 (inserted_row ''e'' ''s'' FAILED 99000)) ''s'')
   \<and> allowed (checkExecutionAbuse 100000 (Some (new_Error ''connection lost''))
       (replicate 10 (inserted_row ''e'' ''s'' QUEUED 99000)) ''s'')"
  using checkExecutionAbuse_blocks_iff_and_fails_open
          [of "''s''" 100000 "replicate 10 (inserted_row ''e'' ''s'' QUEUED 99000)"
              "new_Error ''connection lost''"]
        checkExecutionAbuse_blocks_iff_and_fails_open
          [of "''s''" 100000 "replicate 9 (inserted_row ''e'' ''s'' QUEUED 99000)"
              "new_Error ''connection lost''"]
        checkExecutionAbuse_blocks_iff_and_fails_open
          [of "''s''" 100000 "replicate 5 (inserted_row ''e'' ''s'' FAILED 99000)"
              "new_Error ''connection lost''"]
  by (simp add: Let_def inserted_row_def)

subsection \<open>Runner: compile failures\<close>

text \<open>\<^verbatim>\<open>includes\<close> is the substring test.\<close>

lemma starts_with_iff: "starts_with s p = (\<exists>q. s = p @ q)"
  by (induction s p rule: starts_with.induct) auto

lemma js_includes_iff: "js_includes s sub = (\<exists>p q. s = p @ sub @ q)"
proof (induction s)
  case Nil
  then show ?case by simp
next
  case (Cons c cs)
  show ?case
  proof
    assume "js_includes (c # cs) sub"
    then consider "starts_with (c # cs) sub" | "js_includes cs sub" by auto
    then show "\<exists>p q. c # cs = p @ sub @ q"
    proof cases
      case 1
      then obtain q where "c # cs = sub @ q" by (auto simp add: starts_with_iff)
      then have "c # cs = [] @ sub @ q" by simp
      then show ?thesis by blast
    next
      case 2
      then obtain p q where "cs = p @ sub @ q" using Cons.IH by auto
      then have "c # cs = (c # p) @ sub @ q" by simp
      then show ?thesis by blast
    qed
  next
    assume "\<exists>p q. c # cs = p @ sub @ q"
    then obtain p q where pq: "c # cs = p @ sub @ q" by blast
    show "js_includes (c # cs) sub"
    proof (cases p)
      case Nil
      then have "starts_with (c # cs) sub" using pq by (auto simp add: starts_with_iff)
      then show ?thesis by simp
    next
      case (Cons d ds)
      then have "cs = ds @ sub @ q" using pq by simp
      then have "js_includes cs sub" using Cons.IH by blast
      then show ?thesis by simp
    qed
  qed
qed

lemma has_error_marker_iff:
  "has_error_marker output =
     (\<exists>p q. toLowerCase output = p @ ''error'' @ q \<or> toLowerCase output = p @ ''not found'' @ q)"
  unfolding has_error_marker_def js_includes_iff by blast

lemma has_error_marker_nonempty: "has_error_marker output \<Longrightarrow> output \<noteq> []"
  by (auto simp add: has_error_marker_iff toLowerCase_def)

lemma js_or_nonempty: "b \<noteq> [] \<Longrightarrow> js_or a b \<noteq> []"
  by (simp add: js_or_def)

lemma js_or_left: "a \<noteq> [] \<Longrightarrow> js_or a b = a"
  by (simp add: js_or_def)

lemma compile_case_rejected:
  assumes "source_write_fault env = None" and "compile_result env = Rejected e"
  shows "\<exists>w c. compile_case env compiler fileName src t =
           (Return (compile_failure
              (js_or (js_or (err_stderr e) (err_stdout e)) (js_or (message e) ''Compilation failed''))),
            [WriteFile w src, CompileStep c (max t 10000)])"
proof -
  have "js_or (js_or (err_stderr e) (err_stdout e)) (js_or (message e) ''Compilation failed'') \<noteq> []"
    by (intro js_or_nonempty) simp
  then show ?thesis
    using assms by (simp add: compile_case_def Let_def js_or_left)
qed

lemma compile_case_marker:
  assumes "source_write_fault env = None" and "compile_result env = Resolved out err"
    and "has_error_marker (compileOutput out err)"
  shows "\<exists>w c. compile_case env compiler fileName src t =
           (Return (compile_failure (compileOutput out err)),
            [WriteFile w src, CompileStep c (max t 10000)])"
  using assms has_error_marker_nonempty [OF assms(3)]
  by (simp add: compile_case_def Let_def js_or_left)

text \<open>
  C7.  For the runtimes \<^verbatim>\<open>gcc\<close> and \<^verbatim>\<open>g++\<close>, once the scratch directory and the source
  file are written: if the compile step is rejected (a non-zero exit among the causes),
  or it resolves and the lowered \<^verbatim>\<open>compileOutput\<close> contains \<^verbatim>\<open>error\<close> or
  \<^verbatim>\<open>not found\<close>, the Runner returns exactly status FAILED, empty stdout, execution time
  0, exit code 1, no timeout, and as stderr the compile output (for a rejection the
  error's stderr, else its stdout, else its message, else \<^verbatim>\<open>Compilation failed\<close>),
  which is not empty; no run step is among the effects.
\<close>

theorem compile_failure_returns_failed_without_run:
  assumes "runtime language = ''gcc'' \<or> runtime language = ''g++''"
    and "mkdir_fault env = None" and "source_write_fault env = None"
    and "(\<exists>e. compile_result env = Rejected e) \<or>
         (\<exists>out err p q. compile_result env = Resolved out err \<and>
            (toLowerCase (compileOutput out err) = p @ ''error'' @ q \<or>
             toLowerCase (compileOutput out err) = p @ ''not found'' @ q))"
  shows "fst (executeCode env language src t m) =
           \<lparr> status = FAILED, stdout = [],
             stderr = (case compile_result env of
                         Resolved out err \<Rightarrow> compileOutput out err
                       | Rejected e \<Rightarrow> js_or (js_or (err_stderr e) (err_stdout e))
                                            (js_or (message e) ''Compilation failed'')),
             execution_time_ms = 0, exit_code = CodeNum 1, timeout = False \<rparr>
         \<and> stderr (fst (executeCode env language src t m)) \<noteq> []
         \<and> (\<forall>cmd tl mb. RunStep cmd tl mb \<notin> set (snd (executeCode env language src t m)))"
proof -
  define msg where "msg = (case compile_result env of
                         Resolved out err \<Rightarrow> compileOutput out err
                       | Rejected e \<Rightarrow> js_or (js_or (err_stderr e) (err_stdout e))
                                            (js_or (message e) ''Compilation failed''))"
  have case_result: "\<exists>w c. compile_case env compiler fileName src t =
           (Return (compile_failure msg), [WriteFile w src, CompileStep c (max t 10000)])"
    for compiler fileName
    using assms(4)
  proof
    assume "\<exists>e. compile_result env = Rejected e"
    then obtain e where e: "compile_result env = Rejected e" by blast
    show ?thesis
      using compile_case_rejected [OF assms(3) e, of compiler fileName src t]
      by (simp add: msg_def e)
  next
    assume "\<exists>out err p q. compile_result env = Resolved out err \<and>
            (toLowerCase (compileOutput out err) = p @ ''error'' @ q \<or>
             toLowerCase (compileOutput out err) = p @ ''not found'' @ q)"
    then obtain out err where r: "compile_result env = Resolved out err"
      and mk: "has_error_marker (compileOutput out err)"
      unfolding has_error_marker_iff by blast
    show ?thesis
      using compile_case_marker [OF assms(3) r mk, of compiler fileName src t]
      by (simp add: msg_def r)
  qed
  have msg_nonempty: "msg \<noteq> []"
    using assms(4)
  proof
    assume "\<exists>e. compile_result env = Rejected e"
    then obtain e where e: "compile_result env = Rejected e" by blast
    have "js_or (js_or (err_stderr e) (err_stdout e)) (js_or (message e) ''Compilation failed'') \<noteq> []"
      by (intro js_or_nonempty) simp
    then show ?thesis by (simp add: msg_def e)
  next
    assume "\<exists>out err p q. compile_result env = Resolved out err \<and>
            (toLowerCase (compileOutput out err) = p @ ''error'' @ q \<or>
             toLowerCase (compileOutput out err) = p @ ''not found'' @ q)"
    then obtain out err where r: "compile_result env = Resolved out err"
      and mk: "has_error_marker (compileOutput out err)"
      unfolding has_error_marker_iff by blast
    show ?thesis using has_error_marker_nonempty [OF mk] by (simp add: msg_def r)
  qed
  have "\<exists>w c. switch_runtime env language src t =
           (Return (compile_failure msg), [WriteFile w src, CompileStep c (max t 10000)])"
    using assms(1) case_result by (auto simp add: switch_runtime_def)
  then obtain w c where sw: "switch_runtime env language src t =
           (Return (compile_failure msg), [WriteFile w src, CompileStep c (max t 10000)])"
    by blast
  have ex: "executeCode env language src t m =
          (compile_failure msg,
           [Mkdir (tmpDir env), WriteFile w src, CompileStep c (max t 10000), Rm (tmpDir env)])"
    using assms(2) sw by (simp add: executeCode_def executeCode_try_def)
  show ?thesis
    using msg_nonempty unfolding ex msg_def [symmetric]
    by (simp add: compile_failure_def)
qed

theorem compile_failure_witness:
  "fst (executeCode
         (sample_env (Rejected ((new_Error ''Command failed: gcc'')
                                  \<lparr> err_stdout := ''main.c:1:20: error: expected expression'',
                                    err_code := CodeNum 1 \<rparr>))
                     (Resolved [] []))
         \<lparr> runtime = ''gcc'' \<rparr> ''int main(){ return ; }'' 5000 256)
     = \<lparr> status = FAILED, stdout = [], stderr = ''main.c:1:20: error: expected expression'',
         execution_time_ms = 0, exit_code = CodeNum 1, timeout = False \<rparr>
   \<and> fst (executeCode
         (sample_env (Resolved ''ld: warning: Error'' []) (Resolved [] []))
         \<lparr> runtime = ''g++'' \<rparr> ''int main(){}'' 5000 256)
     = \<lparr> status = FAILED, stdout = [], stderr = ''ld: warning: Error'',
         execution_time_ms = 0, exit_code = CodeNum 1, timeout = False \<rparr>"
proof -
  let ?rejected = "sample_env (Rejected ((new_Error ''Command failed: gcc'')
                                  \<lparr> err_stdout := ''main.c:1:20: error: expected expression'',
                                    err_code := CodeNum 1 \<rparr>))
                     (Resolved [] [])"
  let ?marked = "sample_env (Resolved ''ld: warning: Error'' []) (Resolved [] [])"
  have "has_error_marker (compileOutput ''ld: warning: Error'' [])"
    by (simp add: has_error_marker_def toLowerCase_def compileOutput_def js_or_def
        lower_char_def ascii_upper_def ascii_lower_def)
  then have marker: "\<exists>p q. toLowerCase (compileOutput ''ld: warning: Error'' []) = p @ ''error'' @ q \<or>
                 toLowerCase (compileOutput ''ld: warning: Error'' []) = p @ ''not found'' @ q"
    by (simp only: has_error_marker_iff)
  have h_rejected: "(\<exists>e. compile_result ?rejected = Rejected e) \<or>
         (\<exists>out err p q. compile_result ?rejected = Resolved out err \<and>
            (toLowerCase (compileOutput out err) = p @ ''error'' @ q \<or>
             toLowerCase (compileOutput out err) = p @ ''not found'' @ q))"
    by (simp add: sample_env_def)
  have h_marked: "(\<exists>e. compile_result ?marked = Rejected e) \<or>
         (\<exists>out err p q. compile_result ?marked = Resolved out err \<and>
            (toLowerCase (compileOutput out err) = p @ ''error'' @ q \<or>
             toLowerCase (compileOutput out err) = p @ ''not found'' @ q))"
    using marker by (simp add: sample_env_def)
  have a: "fst (executeCode ?rejected \<lparr> runtime = ''gcc'' \<rparr> ''int main(){ return ; }'' 5000 256)
     = \<lparr> status = FAILED, stdout = [], stderr = ''main.c:1:20: error: expected expression'',
         execution_time_ms = 0, exit_code = CodeNum 1, timeout = False \<rparr>"
    using compile_failure_returns_failed_without_run
      [of "\<lparr> runtime = ''gcc'' \<rparr>" ?rejected "''int main(){ return ; }''" 5000 256, OF _ _ _ h_rejected]
    by (simp add: sample_env_def new_Error_def js_or_def)
  have b: "fst (executeCode ?marked \<lparr> runtime = ''g++'' \<rparr> ''int main(){}'' 5000 256)
     = \<lparr> status = FAILED, stdout = [], stderr = ''ld: warning: Error'',
         execution_time_ms = 0, exit_code = CodeNum 1, timeout = False \<rparr>"
    using compile_failure_returns_failed_without_run
      [of "\<lparr> runtime = ''g++'' \<rparr>" ?marked "''int main(){}''" 5000 256, OF _ _ _ h_marked]
    by (simp add: sample_env_def compileOutput_def js_or_def)
  show ?thesis using a b by simp
qed

subsection \<open>Runner: outcome classification\<close>

lemma run_outcome_cases:
  "(status (run_outcome res t) = TIMEOUT) = timeout (run_outcome res t)"
  "status (run_outcome res t) = TIMEOUT \<Longrightarrow> exit_code (run_outcome res t) = CodeNull"
  "status (run_outcome res t) = COMPLETED \<Longrightarrow>
     exit_code (run_outcome res t) = CodeNum 0 \<and> \<not> timeout (run_outcome res t)"
  by (auto simp add: run_outcome_def split: exec_result.splits if_splits)

lemma compile_case_exits:
  "compile_case env compiler fileName src t = (Return out, steps) \<Longrightarrow>
     status out = FAILED \<and> \<not> timeout out \<and> exit_code out = CodeNum 1"
  by (auto simp add: compile_case_def Let_def compile_failure_def
      split: option.splits exec_result.splits if_splits)

lemma switch_runtime_return:
  "switch_runtime env language src t = (Return out, steps) \<Longrightarrow>
     status out = FAILED \<and> \<not> timeout out \<and> exit_code out = CodeNum 1"
  by (auto simp add: switch_runtime_def split: if_splits dest: compile_case_exits)

lemma executeCode_try_outcome:
  assumes "executeCode_try env language src t m = (Inr out, steps)"
  shows "(status out = TIMEOUT) = timeout out
         \<and> (status out = TIMEOUT \<longrightarrow> exit_code out = CodeNull)
         \<and> (status out = COMPLETED \<longrightarrow> exit_code out = CodeNum 0 \<and> \<not> timeout out)"
proof (cases "mkdir_fault env")
  case (Some e)
  then show ?thesis using assms by (simp add: executeCode_try_def)
next
  case None
  obtain ex st where sw: "switch_runtime env language src t = (ex, st)"
    by (cases "switch_runtime env language src t")
  show ?thesis
  proof (cases ex)
    case (Proceed fileName cmd)
    then have "out = run_outcome (run_result env) (run_elapsed env)"
      using assms None sw
      by (auto simp add: executeCode_try_def Let_def split: option.splits)
    then show ?thesis using run_outcome_cases [of "run_result env" "run_elapsed env"] by simp
  next
    case (Return o')
    then have "out = o'" using assms None sw by (simp add: executeCode_try_def)
    then show ?thesis using switch_runtime_return [of env language src t o' st] sw Return
      by simp
  next
    case (Throw e)
    then show ?thesis using assms None sw by (simp add: executeCode_try_def)
  qed
qed

text \<open>
  C8.  Every outcome that \<^verbatim>\<open>executeCode\<close> returns has status TIMEOUT exactly when its
  \<^verbatim>\<open>timeout\<close> flag is set; a TIMEOUT outcome has exit code null; a COMPLETED outcome
  has exit code 0 and no timeout flag.
\<close>

theorem executeCode_outcome_invariants:
  "(status (fst (executeCode env language src t m)) = TIMEOUT)
     = timeout (fst (executeCode env language src t m))
   \<and> (status (fst (executeCode env language src t m)) = TIMEOUT \<longrightarrow>
        exit_code (fst (executeCode env language src t m)) = CodeNull)
   \<and> (status (fst (executeCode env language src t m)) = COMPLETED \<longrightarrow>
        exit_code (fst (executeCode env language src t m)) = CodeNum 0
        \<and> \<not> timeout (fst (executeCode env language src t m)))"
proof -
  obtain res steps where tr: "executeCode_try env language src t m = (res, steps)"
    by (cases "executeCode_try env language src t m")
  show ?thesis
  proof (cases res)
    case (Inl e)
    then show ?thesis using tr by (simp add: executeCode_def)
  next
    case (Inr out)
    then have "fst (executeCode env language src t m) = out"
      using tr by (simp add: executeCode_def)
    then show ?thesis using executeCode_try_outcome [of env language src t m out steps] tr Inr
      by simp
  qed
qed

theorem executeCode_outcome_invariants_witness:
  "status (fst (executeCode
      (sample_env (Resolved [] []) (Rejected ((new_Error ''Command failed'')\<lparr> err_killed := True \<rparr>)))
      \<lparr> runtime = ''node'' \<rparr> ''while(true){}'' 500 256)) = TIMEOUT
   \<and> exit_code (fst (executeCode
      (sample_env (Resolved [] []) (Rejected ((new_Error ''Command failed'')\<lparr> err_killed := True \<rparr>)))
      \<lparr> runtime = ''node'' \<rparr> ''while(true){}'' 500 256)) = CodeNull
   \<and> timeout (fst (executeCode
      (sample_env (Resolved [] []) (Rejected ((new_Error ''Command failed'')\<lparr> err_killed := True \<rparr>)))
      \<lparr> runtime = ''node'' \<rparr> ''while(true){}'' 500 256))
   \<and> status (fst (executeCode (sample_env (Resolved [] []) (Resolved ''Hello World'' []))
      \<lparr> runtime = ''node'' \<rparr> ''console.log(1)'' 5000 256)) = COMPLETED
   \<and> exit_code (fst (executeCode (sample_env (Resolved [] []) (Resolved ''Hello World'' []))
      \<lparr> runtime = ''node'' \<rparr> ''console.log(1)'' 5000 256)) = CodeNum 0
   \<and> \<not> timeout (fst (executeCode (sample_env (Resolved [] []) (Resolved ''Hello World'' []))
      \<lparr> runtime = ''node'' \<rparr> ''console.log(1)'' 5000 256))"
proof -
  have t: "status (fst (executeCode
      (sample_env (Resolved [] []) (Rejected ((new_Error ''Command failed'')\<lparr> err_killed := True \<rparr>)))
      \<lparr> runtime = ''node'' \<rparr> ''while(true){}'' 500 256)) = TIMEOUT"
    by (simp add: executeCode_def executeCode_try_def switch_runtime_def sample_env_def
        run_outcome_def new_Error_def Let_def)
  have c: "status (fst (executeCode (sample_env (Resolved [] []) (Resolved ''Hello World'' []))
      \<lparr> runtime = ''node'' \<rparr> ''console.log(1)'' 5000 256)) = COMPLETED"
    by (simp add: executeCode_def executeCode_try_def switch_runtime_def sample_env_def
        run_outcome_def Let_def)
  show ?thesis
    using t c
      executeCode_outcome_invariants
        [of "sample_env (Resolved [] []) (Rejected ((new_Error ''Command failed'')\<lparr> err_killed := True \<rparr>))"
            "\<lparr> runtime = ''node'' \<rparr>" "''while(true){}''" 500 256]
      executeCode_outcome_invariants
        [of "sample_env (Resolved [] []) (Resolved ''Hello World'' [])"
            "\<lparr> runtime = ''node'' \<rparr>" "''console.log(1)''" 5000 256]
    by simp
qed

subsection \<open>Loop-pattern scan\<close>

text \<open>
  \<^verbatim>\<open>test\<close> on one object is not repeatable: the second call on the same object starts
  at the end of the first match.
\<close>

lemma test_keeps_state:
  "test \<lparr> re_pieces = node_patterns ! 1, lastIndex = 0 \<rparr> ''while(1)'' =
     (True, \<lparr> re_pieces = node_patterns ! 1, lastIndex = 8 \<rparr>)
   \<and> fst (test \<lparr> re_pieces = node_patterns ! 1, lastIndex = 8 \<rparr> ''while(1)'') = False"
  by code_simp

lemma new_RegExps_eq:
  "new_RegExps pss h =
     (map (\<lambda>i. length h + i) [0..<length pss],
      h @ map (\<lambda>ps. \<lparr> re_pieces = ps, lastIndex = 0 \<rparr>) pss)"
proof (induction pss arbitrary: h)
  case Nil
  then show ?case by simp
next
  case (Cons ps pss)
  have "map (\<lambda>i. length h + i) [0..<Suc (length pss)] =
          length h # map (\<lambda>i. Suc (length h + i)) [0..<length pss]"
    by (simp add: upt_conv_Cons map_Suc_upt [symmetric] del: upt_Suc)
  then show ?case
    by (simp add: Cons.IH new_RegExp_def del: upt_Suc)
qed

lemma scan_fresh_part:
  assumes "\<forall>a \<in> set as. length h \<le> a \<and> a < length h + length fs"
  shows "fst (scan as s (h @ fs)) = fst (scan (map (\<lambda>a. a - length h) as) s fs)"
  using assms
proof (induction as arbitrary: fs)
  case Nil
  then show ?case by simp
next
  case (Cons a as)
  then have a: "length h \<le> a" "a < length h + length fs" by auto
  have nth: "(h @ fs) ! a = fs ! (a - length h)"
    using a by (simp add: nth_append)
  obtain found r where t: "test (fs ! (a - length h)) s = (found, r)"
    by (cases "test (fs ! (a - length h)) s")
  have upd: "(h @ fs)[a := r] = h @ fs[a - length h := r]"
    using a by (simp add: list_update_append)
  have rest: "\<forall>b \<in> set as. length h \<le> b \<and> b < length h + length (fs[a - length h := r])"
    using Cons.prems by simp
  show ?case
    using Cons.IH [OF rest] by (simp add: nth t upd Let_def)
qed

lemma scan_nil_heap: "fst (scan [] s h) = fst (scan [] s h')"
  by simp

lemma pattern_table_sizes:
  "length python_patterns = 3" "length node_patterns = 3" "length gcc_patterns = 3"
  by (simp_all add: python_patterns_def node_patterns_def gcc_patterns_def)

lemma upt3: "[0..<3] = [0, 1, 2]"
  by (simp add: upt_conv_Cons)

lemma detect_heap_free:
  "fst (detectInfiniteLoopPatterns src language h) =
     (if runtime language = ''python'' then Inr (fst (scan [0, 1, 2] src fresh_tables))
      else if runtime language = ''node'' then Inr (fst (scan [3, 4, 5] src fresh_tables))
      else if runtime language = ''gcc'' then Inr (fst (scan [6, 7, 8] src fresh_tables))
      else if runtime language = ''g++'' then Inr (fst (scan [9, 10, 11] src fresh_tables))
      else if runtime language \<in> set Object_prototype_keys
        then Inl (new_Error ''langPatterns is not iterable'')
      else Inr \<lparr> detected = False, pattern = None, loop_message = None \<rparr>)"
proof -
  have len: "length fresh_tables = 12"
    by (simp add: fresh_tables_def pattern_table_sizes)
  have ft: "map (\<lambda>ps. \<lparr> re_pieces = ps, lastIndex = 0 \<rparr>) python_patterns @
            map (\<lambda>ps. \<lparr> re_pieces = ps, lastIndex = 0 \<rparr>) node_patterns @
            map (\<lambda>ps. \<lparr> re_pieces = ps, lastIndex = 0 \<rparr>) gcc_patterns @
            map (\<lambda>ps. \<lparr> re_pieces = ps, lastIndex = 0 \<rparr>) gcc_patterns = fresh_tables"
    by (simp add: fresh_tables_def)
  have a0: "fst (scan [length h + 0, length h + 1, length h + 2] src (h @ fresh_tables)) =
            fst (scan [0, 1, 2] src fresh_tables)"
    using scan_fresh_part [of "[length h + 0, length h + 1, length h + 2]" h fresh_tables src]
      len by simp
  have a3: "fst (scan [length h + 3 + 0, length h + 3 + 1, length h + 3 + 2] src
                   (h @ fresh_tables)) =
            fst (scan [3, 4, 5] src fresh_tables)"
    using scan_fresh_part
            [of "[length h + 3 + 0, length h + 3 + 1, length h + 3 + 2]" h fresh_tables src]
      len by simp
  have a6: "fst (scan [length h + (3 + 3) + 0, length h + (3 + 3) + 1,
                       length h + (3 + 3) + 2] src (h @ fresh_tables)) =
            fst (scan [6, 7, 8] src fresh_tables)"
    using scan_fresh_part
            [of "[length h + (3 + 3) + 0, length h + (3 + 3) + 1, length h + (3 + 3) + 2]"
                h fresh_tables src]
      len by simp
  have a9: "fst (scan [length h + (3 + (3 + 3)) + 0, length h + (3 + (3 + 3)) + 1,
                       length h + (3 + (3 + 3)) + 2] src (h @ fresh_tables)) =
            fst (scan [9, 10, 11] src fresh_tables)"
    using scan_fresh_part
            [of "[length h + (3 + (3 + 3)) + 0, length h + (3 + (3 + 3)) + 1,
                  length h + (3 + (3 + 3)) + 2]" h fresh_tables src]
      len by simp
  have form: "detectInfiniteLoopPatterns src language h =
     (case map_of
             [(''python'', [length h + 0, length h + 1, length h + 2]),
              (''node'', [length h + 3 + 0, length h + 3 + 1, length h + 3 + 2]),
              (''gcc'', [length h + (3 + 3) + 0, length h + (3 + 3) + 1,
                         length h + (3 + 3) + 2]),
              (''g++'', [length h + (3 + (3 + 3)) + 0, length h + (3 + (3 + 3)) + 1,
                         length h + (3 + (3 + 3)) + 2])]
             (runtime language) of
        None \<Rightarrow>
          if runtime language \<in> set Object_prototype_keys
          then (Inl (new_Error ''langPatterns is not iterable''), h @ fresh_tables)
          else (case scan [] src (h @ fresh_tables) of (res, x) \<Rightarrow> (Inr res, x))
      | Some langPatterns \<Rightarrow>
          (case scan langPatterns src (h @ fresh_tables) of (res, x) \<Rightarrow> (Inr res, x)))"
    unfolding detectInfiniteLoopPatterns_def new_RegExps_eq Let_def prod.case
    by (simp only: length_append length_map pattern_table_sizes upt3 list.map append_assoc ft)
  have form2: "fst (detectInfiniteLoopPatterns src language h) =
     (if runtime language = ''python'' then
        Inr (fst (scan [length h + 0, length h + 1, length h + 2] src (h @ fresh_tables)))
      else if runtime language = ''node'' then
        Inr (fst (scan [length h + 3 + 0, length h + 3 + 1, length h + 3 + 2] src
                    (h @ fresh_tables)))
      else if runtime language = ''gcc'' then
        Inr (fst (scan [length h + (3 + 3) + 0, length h + (3 + 3) + 1,
                        length h + (3 + 3) + 2] src (h @ fresh_tables)))
      else if runtime language = ''g++'' then
        Inr (fst (scan [length h + (3 + (3 + 3)) + 0, length h + (3 + (3 + 3)) + 1,
                        length h + (3 + (3 + 3)) + 2] src (h @ fresh_tables)))
      else if runtime language \<in> set Object_prototype_keys
        then Inl (new_Error ''langPatterns is not iterable'')
      else Inr \<lparr> detected = False, pattern = None, loop_message = None \<rparr>)"
    unfolding form by (simp del: scan.simps add: scan.simps(1) split_beta)
  show ?thesis
    unfolding form2 a0 a3 a6 a9 by (rule refl)
qed

text \<open>
  C10.  The result of \<^verbatim>\<open>detectInfiniteLoopPatterns\<close> is the same from any two heaps,
  whatever earlier calls left there, and in particular a second call right after the
  first returns what the first returned: the objects it tests are the ones it has just
  allocated.
\<close>

theorem detectInfiniteLoopPatterns_deterministic:
  "fst (detectInfiniteLoopPatterns src language h) =
     fst (detectInfiniteLoopPatterns src language h')
   \<and> fst (detectInfiniteLoopPatterns src language
            (snd (detectInfiniteLoopPatterns src language h))) =
     fst (detectInfiniteLoopPatterns src language h)"
  by (simp add: detect_heap_free)

subsection \<open>Execution admission\<close>

text \<open>
  The loop scan cannot throw for the runtime \<^verbatim>\<open>node\<close>, and it changes only the heap of
  RegExp objects and the printed warnings.
\<close>

lemma loop_scan_frame:
  "\<exists>h c. loop_scan session w = Inr (w\<lparr> regexps := h, console_warn := c \<rparr>)"
proof -
  obtain res h where d: "detectInfiniteLoopPatterns (s_source_code session) \<lparr> runtime = ''node'' \<rparr> (regexps w) = (res, h)"
    by (cases "detectInfiniteLoopPatterns (s_source_code session) \<lparr> runtime = ''node'' \<rparr> (regexps w)")
  have "fst (detectInfiniteLoopPatterns (s_source_code session) \<lparr> runtime = ''node'' \<rparr> (regexps w))
          = Inr (fst (scan [3, 4, 5] (s_source_code session) fresh_tables))"
    by (simp add: detect_heap_free)
  then obtain lc where res: "res = Inr lc" using d by simp
  show ?thesis
  proof (cases "detected lc")
    case True
    then have "loop_scan session w = Inr (w\<lparr> regexps := h, console_warn := console_warn w @
                      [''[ExecutionService] Infinite loop warning: '' @
                       (case loop_message lc of Some m \<Rightarrow> m | None \<Rightarrow> ''undefined'')] \<rparr>)"
      by (simp add: loop_scan_def d res)
    then show ?thesis by blast
  next
    case False
    then have "loop_scan session w = Inr (w\<lparr> regexps := h, console_warn := console_warn w \<rparr>)"
      by (simp add: loop_scan_def d res)
    then show ?thesis by blast
  qed
qed

lemma submitExecution_admitted:
  assumes "valid (validateExecutionParams (js_int t) (js_int m))"
    and "allowed (checkExecutionAbuse (se_Date_now env) (se_abuse_fault env) (executions w) sid)"
    and "se_session_fault env = None"
    and "Session_findById (sessions w) sid = Some session"
  shows "\<exists>h c. submitExecution env sid t m w =
           create_and_enqueue env sid t m (w\<lparr> regexps := h, console_warn := c \<rparr>)"
proof -
  obtain h c where "loop_scan session w = Inr (w\<lparr> regexps := h, console_warn := c \<rparr>)"
    using loop_scan_frame by blast
  then have "submitExecution env sid t m w =
           create_and_enqueue env sid t m (w\<lparr> regexps := h, console_warn := c \<rparr>)"
    using assms by (simp add: submitExecution_def Let_def query_def)
  then show ?thesis by blast
qed

lemma create_and_enqueue_done:
  assumes "se_create_fault env = None" and "se_queue_fault env = None"
  shows "fst (create_and_enqueue env sid t m w) =
           Inr \<lparr> execution_id = se_uuid env, sr_status = QUEUED \<rparr>"
    and "executions (snd (create_and_enqueue env sid t m w)) =
           executions w @ [inserted_row (se_uuid env) sid QUEUED (se_NOW env)]"
    and "jobs (snd (create_and_enqueue env sid t m w)) =
           jobs w @ [\<lparr> j_id = se_uuid env, j_execution_id = se_uuid env, j_session_id = sid,
                       j_time_limit = t, j_memory_limit = m, attemptsMade = 0 \<rparr>]"
  using assms
  by (simp_all add: create_and_enqueue_def Execution_create_def queue_add_def query_def
      logExecutionEvent_def Let_def inserted_row_def)

lemma create_and_enqueue_queue_fault:
  assumes "se_create_fault env = None" and "se_queue_fault env = Some e"
  shows "fst (create_and_enqueue env sid t m w) = Inl e"
    and "executions (snd (create_and_enqueue env sid t m w)) =
           executions w @ [inserted_row (se_uuid env) sid QUEUED (se_NOW env)]"
    and "journal (snd (create_and_enqueue env sid t m w)) =
           journal w @ [Insert_execution (inserted_row (se_uuid env) sid QUEUED (se_NOW env))]"
    and "jobs (snd (create_and_enqueue env sid t m w)) = jobs w"
  using assms
  by (simp_all add: create_and_enqueue_def Execution_create_def queue_add_def query_def
      logExecutionEvent_def Let_def)

lemma sample_admission:
  "valid (validateExecutionParams (js_int 5000) (js_int 256))"
  "allowed (checkExecutionAbuse (se_Date_now (sample_submit_env f))
              (se_abuse_fault (sample_submit_env f)) (executions (sample_world st)) ''sess-1'')"
  "se_session_fault (sample_submit_env f) = None"
  "Session_findById (sessions (sample_world st)) ''sess-1'' =
     Some \<lparr> s_id = ''sess-1'', s_language_id = 2, s_status = st,
            s_source_code = ''console.log(1)'' \<rparr>"
  "se_create_fault (sample_submit_env f) = None"
  "se_queue_fault (sample_submit_env f) = f"
  by (simp_all add: validateExecutionParams_def js_less_def js_greater_def Let_def
      MIN_TIME_LIMIT_def MAX_TIME_LIMIT_def
      MIN_MEMORY_LIMIT_def MAX_MEMORY_LIMIT_def checkExecutionAbuse_def abuse_counts_def
      query_def sample_submit_env_def sample_world_def Session_findById_def
      MAX_EXECUTIONS_PER_MINUTE_def MAX_FAILED_ATTEMPTS_def)

text \<open>
  C1.  The code at an input where the claim asks for a SessionClosed error: the session
  exists with status INACTIVE, the limits are valid, the abuse check allows, and store
  and broker work.  \<^verbatim>\<open>submitExecution\<close> returns \<open>QUEUED\<close>, and the store holds a new
  execution row and the queue a new job.
\<close>

theorem submitExecution_admits_inactive_session:
  "fst (submitExecution (sample_submit_env None) ''sess-1'' 5000 256 (sample_world INACTIVE)) =
     Inr \<lparr> execution_id = ''exec-1'', sr_status = QUEUED \<rparr>
   \<and> executions (snd (submitExecution (sample_submit_env None) ''sess-1'' 5000 256
                         (sample_world INACTIVE))) =
     [inserted_row ''exec-1'' ''sess-1'' QUEUED 100000]
   \<and> map j_id (jobs (snd (submitExecution (sample_submit_env None) ''sess-1'' 5000 256
                             (sample_world INACTIVE)))) = [''exec-1'']"
proof -
  obtain h c where s: "submitExecution (sample_submit_env None) ''sess-1'' 5000 256
                         (sample_world INACTIVE) =
      create_and_enqueue (sample_submit_env None) ''sess-1'' 5000 256
        ((sample_world INACTIVE)\<lparr> regexps := h, console_warn := c \<rparr>)"
    using submitExecution_admitted [OF sample_admission(1-4), of None INACTIVE] by blast
  show ?thesis
    unfolding s
    using create_and_enqueue_done
            [OF sample_admission(5) sample_admission(6) [of None], of "''sess-1''" 5000 256
               "(sample_world INACTIVE)\<lparr> regexps := h, console_warn := c \<rparr>"]
    by (simp add: sample_submit_env_def sample_world_def)
qed

text \<open>
  C4, as the code has it.  When the limits are valid, the abuse check allows, the session
  is found, the insert succeeds and the enqueue fails with an error, \<^verbatim>\<open>submitExecution\<close>
  throws that error and writes nothing more: the only statement that ran is the insert,
  the new row is in the table with status QUEUED and null stderr, and the queue holds no
  new job.
\<close>

theorem enqueue_failure_leaves_row_queued:
  assumes "valid (validateExecutionParams (js_int t) (js_int m))"
    and "allowed (checkExecutionAbuse (se_Date_now env) (se_abuse_fault env) (executions w) sid)"
    and "se_session_fault env = None"
    and "Session_findById (sessions w) sid = Some session"
    and "se_create_fault env = None"
    and "se_queue_fault env = Some e"
  shows "fst (submitExecution env sid t m w) = Inl e
         \<and> executions (snd (submitExecution env sid t m w)) =
             executions w @ [inserted_row (se_uuid env) sid QUEUED (se_NOW env)]
         \<and> journal (snd (submitExecution env sid t m w)) =
             journal w @ [Insert_execution (inserted_row (se_uuid env) sid QUEUED (se_NOW env))]
         \<and> jobs (snd (submitExecution env sid t m w)) = jobs w"
proof -
  obtain h c where s: "submitExecution env sid t m w =
      create_and_enqueue env sid t m (w\<lparr> regexps := h, console_warn := c \<rparr>)"
    using submitExecution_admitted [OF assms(1-4)] by blast
  show ?thesis
    unfolding s
    using create_and_enqueue_queue_fault [OF assms(5,6), of sid t m
            "w\<lparr> regexps := h, console_warn := c \<rparr>"]
    by simp
qed

theorem enqueue_failure_witness:
  "fst (submitExecution (sample_submit_env (Some (new_Error ''Connection is closed.'')))
          ''sess-1'' 5000 256 (sample_world ACTIVE)) = Inl (new_Error ''Connection is closed.'')
   \<and> executions (snd (submitExecution
          (sample_submit_env (Some (new_Error ''Connection is closed.'')))
          ''sess-1'' 5000 256 (sample_world ACTIVE))) =
       [inserted_row ''exec-1'' ''sess-1'' QUEUED 100000]
   \<and> jobs (snd (submitExecution
          (sample_submit_env (Some (new_Error ''Connection is closed.'')))
          ''sess-1'' 5000 256 (sample_world ACTIVE))) = []"
  using enqueue_failure_leaves_row_queued
          [where env = "sample_submit_env (Some (new_Error ''Connection is closed.''))"
             and w = "sample_world ACTIVE" and sid = "''sess-1''" and t = 5000 and m = 256
             and e = "new_Error ''Connection is closed.''",
           OF sample_admission(1-6)]
  by (simp add: sample_submit_env_def sample_world_def)

text \<open>
  C4, as stated, fails: after an enqueue that failed, the row of the execution is QUEUED
  with null stderr and the queue is empty.
\<close>

theorem enqueue_failure_counterexample:
  "fst (submitExecution (sample_submit_env (Some (new_Error ''Connection is closed.'')))
          ''sess-1'' 5000 256 (sample_world ACTIVE)) = Inl (new_Error ''Connection is closed.'')
   \<and> map (\<lambda>r. (e_id r, e_status r, e_stderr r))
        (executions (snd (submitExecution
          (sample_submit_env (Some (new_Error ''Connection is closed.'')))
          ''sess-1'' 5000 256 (sample_world ACTIVE)))) = [(''exec-1'', QUEUED, None)]
   \<and> jobs (snd (submitExecution
          (sample_submit_env (Some (new_Error ''Connection is closed.'')))
          ''sess-1'' 5000 256 (sample_world ACTIVE))) = []"
proof -
  let ?env = "sample_submit_env (Some (new_Error ''Connection is closed.''))"
  obtain h c where s: "submitExecution ?env ''sess-1'' 5000 256 (sample_world ACTIVE) =
      create_and_enqueue ?env ''sess-1'' 5000 256
        ((sample_world ACTIVE)\<lparr> regexps := h, console_warn := c \<rparr>)"
    using submitExecution_admitted
            [OF sample_admission(1-4), of "Some (new_Error ''Connection is closed.'')" ACTIVE]
    by blast
  show ?thesis
    unfolding s
    using create_and_enqueue_queue_fault
            [OF sample_admission(5) sample_admission(6), of "new_Error ''Connection is closed.''"
               "''sess-1''" 5000 256
               "(sample_world ACTIVE)\<lparr> regexps := h, console_warn := c \<rparr>"]
    by (simp add: sample_submit_env_def sample_world_def inserted_row_def)
qed

subsection \<open>Worker writes\<close>

lemma updateStarted_result:
  "Execution_updateStarted None NOW eid w =
     Inr (w\<lparr> executions := map (\<lambda>r. if e_id r = eid then started_row NOW r else r) (executions w),
            journal := journal w @ [Update_started eid NOW] \<rparr>)"
  by (simp add: Execution_updateStarted_def query_def)

lemma updateResult_result:
  "Execution_updateResult None eid d w =
     Inr (w\<lparr> executions := map (\<lambda>r. if e_id r = eid then result_row d r else r) (executions w),
            journal := journal w @ [Update_result eid d] \<rparr>)"
  by (simp add: Execution_updateResult_def query_def)

text \<open>
  C2, as the code has it.  Both worker writes are conditional on the id alone.  When the
  store accepts it, \<^verbatim>\<open>updateStarted\<close> sets status RUNNING and \<^verbatim>\<open>started_at\<close> on every row
  with the given id, whatever its current status, and \<^verbatim>\<open>updateResult\<close> overwrites
  status, stdout, stderr, execution time, exit code, timeout flag and \<^verbatim>\<open>finished_at\<close> of
  every row with the given id, whatever its current status, terminal ones included; the
  other columns of such a row and the rows with another id stay as they are.
\<close>

theorem worker_writes_ignore_current_status:
  "(\<exists>w1. Execution_updateStarted None NOW eid w = Inr w1
          \<and> length (executions w1) = length (executions w)
          \<and> (\<forall>i < length (executions w).
                executions w1 ! i =
                  (if e_id (executions w ! i) = eid
                   then (executions w ! i)\<lparr> e_status := RUNNING, e_started_at := Some NOW \<rparr>
                   else executions w ! i)))
   \<and> (\<exists>w2. Execution_updateResult None eid d w = Inr w2
          \<and> length (executions w2) = length (executions w)
          \<and> (\<forall>i < length (executions w).
                executions w2 ! i =
                  (if e_id (executions w ! i) = eid
                   then (executions w ! i)\<lparr> e_status := status d, e_stdout := Some (stdout d),
                          e_stderr := Some (stderr d),
                          e_execution_time_ms := Some (execution_time_ms d),
                          e_exit_code := exit_code d, e_timeout := timeout d,
                          e_finished_at := Some (finished_at d) \<rparr>
                   else executions w ! i)))"
  by (simp add: updateStarted_result updateResult_result started_row_def result_row_def)

theorem worker_writes_ignore_current_status_witness:
  "e_status (executions completed_world ! 0) = COMPLETED
   \<and> (\<exists>w1. Execution_updateStarted None 200000 ''exec-1'' completed_world = Inr w1
          \<and> e_status (executions w1 ! 0) = RUNNING
          \<and> e_started_at (executions w1 ! 0) = Some 200000)
   \<and> (\<exists>w2. Execution_updateResult None ''exec-1''
               \<lparr> status = FAILED, stdout = [], stderr = ''Session not found: sess-1'',
                 execution_time_ms = 0, exit_code = CodeNum 1, timeout = False,
                 finished_at = 200600 \<rparr> completed_world = Inr w2
          \<and> e_status (executions w2 ! 0) = FAILED
          \<and> e_stdout (executions w2 ! 0) = Some [])"
  using worker_writes_ignore_current_status
          [of 200000 "''exec-1''" completed_world
              "\<lparr> status = FAILED, stdout = [], stderr = ''Session not found: sess-1'',
                 execution_time_ms = 0, exit_code = CodeNum 1, timeout = False,
                 finished_at = 200600 \<rparr>"]
  by (auto simp add: completed_world_def completed_row_def sample_world_def)

text \<open>
  C2, as stated, fails: \<^verbatim>\<open>updateStarted\<close> on a COMPLETED row makes it RUNNING and
  replaces its \<^verbatim>\<open>started_at\<close>.
\<close>

theorem terminal_row_overwritten_counterexample:
  "e_status completed_row = COMPLETED
   \<and> Execution_updateStarted None 200000 ''exec-1'' completed_world =
       Inr (completed_world
              \<lparr> executions := [completed_row\<lparr> e_status := RUNNING, e_started_at := Some 200000 \<rparr>],
                journal := [Update_started ''exec-1'' 200000] \<rparr>)"
  by (simp add: updateStarted_result completed_world_def completed_row_def sample_world_def
      started_row_def)

subsection \<open>Worker: missing session\<close>

lemma logExecutionEvent_frame:
  "journal (logExecutionEvent d eid st w) = journal w"
  "executions (logExecutionEvent d eid st w) = executions w"
  "sessions (logExecutionEvent d eid st w) = sessions w"
  "languages (logExecutionEvent d eid st w) = languages w"
  by (simp_all add: logExecutionEvent_def)

lemma processExecution_missing_session:
  assumes "we_started_fault env = None" and "we_session_fault env = None"
    and "we_failed_fault env = None"
    and "Session_findWithLanguage (sessions w) (languages w) (j_session_id j) = None"
  shows "fst (processExecution env j w) = Inl (new_Error (''Session not found: '' @ j_session_id j))"
    and "journal (snd (processExecution env j w)) =
           journal w @
           [Update_started (j_execution_id j) (we_NOW env),
            Update_result (j_execution_id j)
              \<lparr> status = FAILED, stdout = [], stderr = ''Session not found: '' @ j_session_id j,
                execution_time_ms = 0, exit_code = CodeNum 1, timeout = False,
                finished_at = we_new_Date env \<rparr>]"
    and "executions (snd (processExecution env j w)) =
           map (\<lambda>r. if e_id r = j_execution_id j
                     then result_row
                            \<lparr> status = FAILED, stdout = [],
                              stderr = ''Session not found: '' @ j_session_id j,
                              execution_time_ms = 0, exit_code = CodeNum 1, timeout = False,
                              finished_at = we_new_Date env \<rparr>
                            (started_row (we_NOW env) r)
                     else r) (executions w)"
proof -
  have tr: "processExecution_try env j w =
      (Inl (new_Error (''Session not found: '' @ j_session_id j)),
       logExecutionEvent (we_redis_down env) (j_execution_id j) RUNNING
         (w\<lparr> executions := map (\<lambda>r. if e_id r = j_execution_id j
                                      then started_row (we_NOW env) r else r) (executions w),
             journal := journal w @ [Update_started (j_execution_id j) (we_NOW env)] \<rparr>))"
    using assms
    by (simp add: processExecution_try_def updateStarted_result run_and_store_def query_def
        logExecutionEvent_frame)
  show "fst (processExecution env j w) = Inl (new_Error (''Session not found: '' @ j_session_id j))"
    using assms(3)
    by (simp add: processExecution_def tr updateResult_result Let_def logExecutionEvent_frame)
  show "journal (snd (processExecution env j w)) =
           journal w @
           [Update_started (j_execution_id j) (we_NOW env),
            Update_result (j_execution_id j)
              \<lparr> status = FAILED, stdout = [], stderr = ''Session not found: '' @ j_session_id j,
                execution_time_ms = 0, exit_code = CodeNum 1, timeout = False,
                finished_at = we_new_Date env \<rparr>]"
    using assms(3)
    by (simp add: processExecution_def tr updateResult_result Let_def new_Error_def
        logExecutionEvent_frame)
  show "executions (snd (processExecution env j w)) =
           map (\<lambda>r. if e_id r = j_execution_id j
                     then result_row
                            \<lparr> status = FAILED, stdout = [],
                              stderr = ''Session not found: '' @ j_session_id j,
                              execution_time_ms = 0, exit_code = CodeNum 1, timeout = False,
                              finished_at = we_new_Date env \<rparr>
                            (started_row (we_NOW env) r)
                     else r) (executions w)"
    using assms(3)
    by (simp add: processExecution_def tr updateResult_result Let_def new_Error_def comp_def
        started_row_def result_row_def logExecutionEvent_frame cong: if_cong)
qed

text \<open>
  C3, as the code has it.  For every job whose session is missing, when the store accepts
  the worker's writes: the worker marks the execution RUNNING, then writes the terminal
  FAILED result (stderr \<^verbatim>\<open>Session not found: <session id>\<close>, exit code 1, no timeout),
  so that every row of that execution is FAILED with that stderr, and throws the error
  again.  The job is therefore not acked: the queue runs it again after the backoff
  (2000 ms doubled per attempt made) while fewer than 3 attempts were made, and keeps it
  as failed after the third.
\<close>

theorem missing_session_fails_row_and_rethrows:
  assumes "we_started_fault env = None" and "we_session_fault env = None"
    and "we_failed_fault env = None"
    and "Session_findWithLanguage (sessions w) (languages w) (j_session_id j) = None"
  shows "fst (processExecution env j w) =
           Inl (new_Error (''Session not found: '' @ j_session_id j))
         \<and> new_statements w (snd (processExecution env j w)) =
             [Update_started (j_execution_id j) (we_NOW env),
              Update_result (j_execution_id j)
                \<lparr> status = FAILED, stdout = [],
                  stderr = ''Session not found: '' @ j_session_id j,
                  execution_time_ms = 0, exit_code = CodeNum 1, timeout = False,
                  finished_at = we_new_Date env \<rparr>]
         \<and> (\<forall>r \<in> set (executions (snd (processExecution env j w))).
               e_id r = j_execution_id j \<longrightarrow>
                 e_status r = FAILED \<and>
                 e_stderr r = Some (''Session not found: '' @ j_session_id j))
         \<and> settle j (fst (processExecution env j w)) =
             (if attemptsMade j + 1 < 3 then Retried (2000 * 2 ^ attemptsMade j)
              else Kept_failed)"
  using processExecution_missing_session [OF assms]
  by (auto simp add: new_statements_def settle_def queue_attempts_def backoff_delay_def
      result_row_def started_row_def)

theorem missing_session_witness:
  "fst (processExecution (sample_worker_env (Resolved ''1'' [])) (sample_job ''sess-1'' 0)
          orphan_world) = Inl (new_Error ''Session not found: sess-1'')
   \<and> settle (sample_job ''sess-1'' 0)
        (fst (processExecution (sample_worker_env (Resolved ''1'' [])) (sample_job ''sess-1'' 0)
                orphan_world)) = Retried 2000
   \<and> map (\<lambda>r. (e_status r, e_stderr r))
        (executions (snd (processExecution (sample_worker_env (Resolved ''1'' []))
                            (sample_job ''sess-9'' 2) completed_world))) =
       [(FAILED, Some ''Session not found: sess-9'')]
   \<and> settle (sample_job ''sess-9'' 2)
        (fst (processExecution (sample_worker_env (Resolved ''1'' [])) (sample_job ''sess-9'' 2)
                completed_world)) = Kept_failed"
proof -
  have a: "Session_findWithLanguage (sessions orphan_world) (languages orphan_world)
             (j_session_id (sample_job ''sess-1'' 0)) = None"
    by (simp add: Session_findWithLanguage_def orphan_world_def sample_world_def sample_job_def)
  have b: "Session_findWithLanguage (sessions completed_world) (languages completed_world)
             (j_session_id (sample_job ''sess-9'' 2)) = None"
    by (simp add: Session_findWithLanguage_def completed_world_def sample_world_def
        sample_job_def)
  have p1: "fst (processExecution (sample_worker_env (Resolved ''1'' [])) (sample_job ''sess-1'' 0)
                 orphan_world) = Inl (new_Error ''Session not found: sess-1'')
            \<and> settle (sample_job ''sess-1'' 0)
                 (fst (processExecution (sample_worker_env (Resolved ''1'' []))
                         (sample_job ''sess-1'' 0) orphan_world)) = Retried 2000"
    using missing_session_fails_row_and_rethrows
            [where env = "sample_worker_env (Resolved ''1'' [])" and j = "sample_job ''sess-1'' 0"
               and w = orphan_world, OF _ _ _ a]
    by (simp add: sample_worker_env_def sample_job_def settle_def queue_attempts_def
        backoff_delay_def)
  have rows: "executions (snd (processExecution (sample_worker_env (Resolved ''1'' []))
                                 (sample_job ''sess-9'' 2) completed_world)) =
              [result_row
                 \<lparr> status = FAILED, stdout = [], stderr = ''Session not found: sess-9'',
                   execution_time_ms = 0, exit_code = CodeNum 1, timeout = False,
                   finished_at = 200600 \<rparr>
                 (started_row 200000 completed_row)]"
    using processExecution_missing_session(3)
            [where env = "sample_worker_env (Resolved ''1'' [])" and j = "sample_job ''sess-9'' 2"
               and w = completed_world, OF _ _ _ b]
    by (simp add: sample_worker_env_def sample_job_def completed_world_def completed_row_def)
  have p2: "map (\<lambda>r. (e_status r, e_stderr r))
              (executions (snd (processExecution (sample_worker_env (Resolved ''1'' []))
                                  (sample_job ''sess-9'' 2) completed_world))) =
            [(FAILED, Some ''Session not found: sess-9'')]
            \<and> settle (sample_job ''sess-9'' 2)
                 (fst (processExecution (sample_worker_env (Resolved ''1'' []))
                         (sample_job ''sess-9'' 2) completed_world)) = Kept_failed"
    using missing_session_fails_row_and_rethrows
            [where env = "sample_worker_env (Resolved ''1'' [])" and j = "sample_job ''sess-9'' 2"
               and w = completed_world, OF _ _ _ b]
    unfolding rows
    by (simp add: sample_worker_env_def sample_job_def result_row_def started_row_def
        completed_row_def settle_def queue_attempts_def backoff_delay_def)
  show ?thesis using p1 p2 by blast
qed

text \<open>
  C3, as stated, fails: for a job whose session is gone, the processor's promise is
  rejected, not resolved, and on the first attempt the queue schedules a retry.
\<close>

theorem missing_session_counterexample:
  "Session_findWithLanguage (sessions orphan_world) (languages orphan_world) ''sess-1'' = None
   \<and> fst (processExecution (sample_worker_env (Resolved ''1'' [])) (sample_job ''sess-1'' 0)
            orphan_world) = Inl (new_Error ''Session not found: sess-1'')
   \<and> settle (sample_job ''sess-1'' 0)
        (fst (processExecution (sample_worker_env (Resolved ''1'' [])) (sample_job ''sess-1'' 0)
                orphan_world)) = Retried 2000"
proof -
  have a: "Session_findWithLanguage (sessions orphan_world) (languages orphan_world)
             (j_session_id (sample_job ''sess-1'' 0)) = None"
    by (simp add: Session_findWithLanguage_def orphan_world_def sample_world_def sample_job_def)
  show ?thesis
    using processExecution_missing_session(1)
            [where env = "sample_worker_env (Resolved ''1'' [])" and j = "sample_job ''sess-1'' 0"
               and w = orphan_world, OF _ _ _ a]
    by (simp add: sample_worker_env_def sample_job_def settle_def queue_attempts_def
        backoff_delay_def Session_findWithLanguage_def orphan_world_def sample_world_def)
qed

subsection \<open>Worker: stderr of FAILED writes\<close>

lemma compile_case_throw:
  "compile_case env compiler fileName src t = (Throw e, steps) \<Longrightarrow>
     source_write_fault env = Some e"
  by (auto simp add: compile_case_def Let_def split: option.splits exec_result.splits if_splits)

lemma compile_case_return_stderr:
  "compile_case env compiler fileName src t = (Return out, steps) \<Longrightarrow> stderr out \<noteq> []"
  by (auto simp add: compile_case_def Let_def compile_failure_def js_or_def
      split: option.splits exec_result.splits if_splits)

lemma switch_runtime_throw:
  assumes "described (source_write_fault env)"
    and "switch_runtime env language src t = (Throw e, steps)"
  shows "message e \<noteq> []"
  using assms
  by (auto simp add: switch_runtime_def described_def new_Error_def
      split: if_splits dest!: compile_case_throw)

lemma switch_runtime_return_stderr:
  "switch_runtime env language src t = (Return out, steps) \<Longrightarrow> stderr out \<noteq> []"
  by (auto simp add: switch_runtime_def split: if_splits dest: compile_case_return_stderr)

lemma run_outcome_failed_stderr:
  assumes "case res of Resolved out err \<Rightarrow> True | Rejected e \<Rightarrow> message e \<noteq> []"
    and "status (run_outcome res t) = FAILED"
  shows "stderr (run_outcome res t) \<noteq> []"
  using assms
  by (auto simp add: run_outcome_def js_or_def split: exec_result.splits if_splits)

lemma executeCode_failed_stderr:
  assumes "runner_errors_described env"
    and "status (fst (executeCode env language src t m)) = FAILED"
  shows "stderr (fst (executeCode env language src t m)) \<noteq> []"
proof -
  obtain res steps where tr: "executeCode_try env language src t m = (res, steps)"
    by (cases "executeCode_try env language src t m")
  obtain ex st where sw: "switch_runtime env language src t = (ex, st)"
    by (cases "switch_runtime env language src t")
  have d: "described (mkdir_fault env)" "described (source_write_fault env)"
    "described (write_fault env)"
    "case run_result env of Resolved out err \<Rightarrow> True | Rejected e \<Rightarrow> message e \<noteq> []"
    using assms(1) by (simp_all add: runner_errors_described_def)
  show ?thesis
  proof (cases res)
    case (Inl e)
    have "message e \<noteq> []"
    proof (cases "mkdir_fault env")
      case (Some e')
      then show ?thesis using tr Inl d(1) by (simp add: executeCode_try_def described_def)
    next
      case None
      show ?thesis
      proof (cases ex)
        case (Proceed f c)
        then show ?thesis
          using tr Inl None sw d(3)
          by (auto simp add: executeCode_try_def described_def Let_def split: option.splits)
      next
        case (Return o')
        then show ?thesis using tr Inl None sw by (simp add: executeCode_try_def)
      next
        case (Throw e')
        then have "e = e'" using tr Inl None sw by (simp add: executeCode_try_def)
        then show ?thesis using switch_runtime_throw [OF d(2)] sw Throw by simp
      qed
    qed
    then show ?thesis using tr Inl by (simp add: executeCode_def)
  next
    case (Inr out)
    then have out: "fst (executeCode env language src t m) = out"
      using tr by (simp add: executeCode_def)
    have "mkdir_fault env = None"
      using tr Inr by (cases "mkdir_fault env") (simp_all add: executeCode_try_def)
    then have "stderr out \<noteq> []"
      using tr Inr sw assms(2) out switch_runtime_return_stderr [of env language src t out st]
        run_outcome_failed_stderr [OF d(4), of "run_elapsed env"]
      by (cases ex) (auto simp add: executeCode_try_def Let_def split: option.splits)
    then show ?thesis using out by simp
  qed
qed

lemma run_and_store_cases:
  assumes "worker_errors_described env" and "run_and_store env j w = (res, w1)"
  shows "case res of
           Inl e \<Rightarrow> message e \<noteq> [] \<and> journal w1 = journal w
         | Inr result \<Rightarrow>
             (\<exists>d. journal w1 = journal w @ [Update_result (j_execution_id j) d]
                  \<and> status d = status result \<and> stderr d = stderr result)
             \<and> (status result = FAILED \<longrightarrow> stderr result \<noteq> [])"
proof -
  have d: "described (we_session_fault env)" "described (we_language_fault env)"
    "described (we_result_fault env)" "runner_errors_described (we_runner env)"
    using assms(1) by (simp_all add: worker_errors_described_def)
  show ?thesis
  proof (cases "we_session_fault env")
    case (Some e)
    then show ?thesis
      using assms(2) d(1) by (auto simp add: run_and_store_def query_def described_def)
  next
    case sf: None
    show ?thesis
    proof (cases "Session_findWithLanguage (sessions w) (languages w) (j_session_id j)")
      case None
      then show ?thesis
        using assms(2) sf by (auto simp add: run_and_store_def query_def new_Error_def)
    next
      case (Some session)
      show ?thesis
      proof (cases "we_language_fault env")
        case (Some e)
        then show ?thesis
          using assms(2) sf \<open>Session_findWithLanguage (sessions w) (languages w) (j_session_id j) = Some session\<close> d(2)
          by (auto simp add: run_and_store_def query_def described_def)
      next
        case lf: None
        show ?thesis
        proof (cases "Language_findById (languages w) (s_language_id session)")
          case None
          then show ?thesis
            using assms(2) sf lf \<open>Session_findWithLanguage (sessions w) (languages w) (j_session_id j) = Some session\<close>
            by (auto simp add: run_and_store_def query_def new_Error_def)
        next
          case (Some language)
          define result where "result = fst (executeCode (we_runner env) language
              (s_source_code session) (j_time_limit j) (j_memory_limit j))"
          have st: "status result = FAILED \<longrightarrow> stderr result \<noteq> []"
            unfolding result_def using executeCode_failed_stderr [OF d(4)] by blast
          show ?thesis
          proof (cases "we_result_fault env")
            case None
            then show ?thesis
              using assms(2) sf lf Some st
                \<open>Session_findWithLanguage (sessions w) (languages w) (j_session_id j) = Some session\<close>
              by (auto simp add: run_and_store_def query_def Let_def updateResult_result
                  result_def logExecutionEvent_frame)
          next
            case (Some e)
            then show ?thesis
              using assms(2) sf lf \<open>Language_findById (languages w) (s_language_id session) = Some language\<close> d(3)
                \<open>Session_findWithLanguage (sessions w) (languages w) (j_session_id j) = Some session\<close>
              by (auto simp add: run_and_store_def query_def Let_def described_def
                  Execution_updateResult_def)
          qed
        qed
      qed
    qed
  qed
qed

lemma processExecution_try_cases:
  assumes "worker_errors_described env" and "processExecution_try env j w = (res, w1)"
  shows "\<exists>xs. journal w1 = journal w @ xs \<and>
           (case res of
              Inl e \<Rightarrow> message e \<noteq> [] \<and> (\<forall>eid d. Update_result eid d \<notin> set xs)
            | Inr result \<Rightarrow>
                (\<forall>eid d. Update_result eid d \<in> set xs \<longrightarrow>
                   status d = status result \<and> stderr d = stderr result)
                \<and> (status result = FAILED \<longrightarrow> stderr result \<noteq> []))"
proof (cases "we_started_fault env")
  case (Some e)
  then have "res = Inl e" "w1 = w"
    using assms(2) by (simp_all add: processExecution_try_def Execution_updateStarted_def query_def)
  moreover have "message e \<noteq> []"
    using assms(1) Some by (simp add: worker_errors_described_def described_def)
  ultimately show ?thesis by simp
next
  case None
  define w0 where "w0 = logExecutionEvent (we_redis_down env) (j_execution_id j) RUNNING
      (w\<lparr> executions := map (\<lambda>r. if e_id r = j_execution_id j
                                   then started_row (we_NOW env) r else r) (executions w),
          journal := journal w @ [Update_started (j_execution_id j) (we_NOW env)] \<rparr>)"
  have rs: "run_and_store env j w0 = (res, w1)"
    using assms(2) None by (simp add: processExecution_try_def updateStarted_result w0_def)
  have j0: "journal w0 = journal w @ [Update_started (j_execution_id j) (we_NOW env)]"
    by (simp add: w0_def logExecutionEvent_frame)
  show ?thesis
  proof (cases res)
    case (Inl e)
    then show ?thesis
      using run_and_store_cases [OF assms(1) rs] j0 by simp
  next
    case (Inr result)
    then obtain d where "journal w1 = journal w0 @ [Update_result (j_execution_id j) d]"
      "status d = status result" "stderr d = stderr result"
      "status result = FAILED \<longrightarrow> stderr result \<noteq> []"
      using run_and_store_cases [OF assms(1) rs] by auto
    then show ?thesis using Inr j0 by simp
  qed
qed

text \<open>
  What the code guarantees about the stderr of a FAILED write: it is the compile output
  or its fixed fallback, the stderr of the run process or else the message of its error,
  or the message of the error that was caught.  Hence, provided the errors raised by the
  file system, the run process and the store carry a message, every \<^verbatim>\<open>updateResult\<close>
  that the worker performs while it processes a job and that writes status FAILED, be it
  the Runner's outcome or the \<^verbatim>\<open>catch\<close> branch, writes a stderr that is not empty.
\<close>

theorem failed_writes_carry_stderr:
  assumes "worker_errors_described env"
  shows "\<forall>eid d. Update_result eid d \<in> set (new_statements w (snd (processExecution env j w))) \<longrightarrow>
                 status d = FAILED \<longrightarrow> stderr d \<noteq> []"
proof -
  obtain res w1 where tr: "processExecution_try env j w = (res, w1)"
    by (cases "processExecution_try env j w")
  obtain xs where xs: "journal w1 = journal w @ xs"
    and body: "case res of
              Inl e \<Rightarrow> message e \<noteq> [] \<and> (\<forall>eid d. Update_result eid d \<notin> set xs)
            | Inr result \<Rightarrow>
                (\<forall>eid d. Update_result eid d \<in> set xs \<longrightarrow>
                   status d = status result \<and> stderr d = stderr result)
                \<and> (status result = FAILED \<longrightarrow> stderr result \<noteq> [])"
    using processExecution_try_cases [OF assms tr] by blast
  show ?thesis
  proof (cases res)
    case (Inr result)
    then have "new_statements w (snd (processExecution env j w)) = xs"
      using tr xs by (simp add: processExecution_def new_statements_def)
    then show ?thesis using body Inr by auto
  next
    case (Inl error)
    then have msg: "message error \<noteq> []" and none: "\<forall>eid d. Update_result eid d \<notin> set xs"
      using body by simp_all
    show ?thesis
    proof (cases "we_failed_fault env")
      case (Some e)
      then have "new_statements w (snd (processExecution env j w)) = xs"
        using tr xs Inl
        by (simp add: processExecution_def new_statements_def Let_def
            Execution_updateResult_def query_def logExecutionEvent_frame)
      then show ?thesis using none by simp
    next
      case None
      then have "new_statements w (snd (processExecution env j w)) =
          xs @ [Update_result (j_execution_id j)
                  \<lparr> status = FAILED, stdout = [], stderr = message error,
                    execution_time_ms = 0, exit_code = CodeNum 1, timeout = False,
                    finished_at = we_new_Date env \<rparr>]"
        using tr xs Inl
        by (simp add: processExecution_def new_statements_def Let_def updateResult_result
            logExecutionEvent_frame)
      then show ?thesis using none msg by auto
    qed
  qed
qed

theorem failed_writes_carry_stderr_witness:
  "worker_errors_described
     (sample_worker_env (Rejected ((new_Error ''Command failed: node index.js'')
                                     \<lparr> err_stdout := ''x'', err_code := CodeNum 7 \<rparr>)))
   \<and> new_statements queued_world
        (snd (processExecution
                (sample_worker_env (Rejected ((new_Error ''Command failed: node index.js'')
                                                \<lparr> err_stdout := ''x'', err_code := CodeNum 7 \<rparr>)))
                (sample_job ''sess-1'' 0) queued_world)) =
       [Update_started ''exec-1'' 200000,
        Update_result ''exec-1''
          \<lparr> status = FAILED, stdout = ''x'', stderr = ''Command failed: node index.js'',
            execution_time_ms = 512, exit_code = CodeNum 7, timeout = False,
            finished_at = 200600 \<rparr>]
   \<and> stderr \<lparr> status = FAILED, stdout = ''x'', stderr = ''Command failed: node index.js'',
              execution_time_ms = 512, exit_code = CodeNum 7, timeout = False,
              finished_at = 200600 \<rparr> \<noteq> []"
proof -
  let ?env = "sample_worker_env (Rejected ((new_Error ''Command failed: node index.js'')
                                     \<lparr> err_stdout := ''x'', err_code := CodeNum 7 \<rparr>))"
  let ?d = "\<lparr> status = FAILED, stdout = ''x'', stderr = ''Command failed: node index.js'',
              execution_time_ms = 512, exit_code = CodeNum 7, timeout = False,
              finished_at = 200600 \<rparr>"
  have described: "worker_errors_described ?env"
    by (simp add: worker_errors_described_def runner_errors_described_def described_def
        sample_worker_env_def sample_env_def new_Error_def)
  have ran: "new_statements queued_world
               (snd (processExecution ?env (sample_job ''sess-1'' 0) queued_world)) =
             [Update_started ''exec-1'' 200000, Update_result ''exec-1'' ?d]"
    by code_simp
  have "Update_result ''exec-1'' ?d \<in>
          set (new_statements queued_world
                 (snd (processExecution ?env (sample_job ''sess-1'' 0) queued_world)))"
    unfolding ran by simp
  then have "stderr ?d \<noteq> []"
    using failed_writes_carry_stderr [OF described, of queued_world "sample_job ''sess-1'' 0"]
    by (metis outcome.select_convs(1))
  then show ?thesis using described ran by blast
qed

text \<open>
  C9.  The code at an input where the claim asks for a non-empty stderr: the worker's
  load of the session throws an error whose message is empty, and the store accepts the
  next write.  The \<^verbatim>\<open>catch\<close> branch, which has no fallback text, writes the FAILED
  result with the empty string as stderr, and the row of the execution ends FAILED with
  empty stderr.
\<close>

theorem catch_branch_writes_empty_stderr:
  "new_statements queued_world
     (snd (processExecution refused_worker_env (sample_job ''sess-1'' 0) queued_world)) =
     [Update_started ''exec-1'' 200000,
      Update_result ''exec-1''
        \<lparr> status = FAILED, stdout = [], stderr = [], execution_time_ms = 0,
          exit_code = CodeNum 1, timeout = False, finished_at = 200600 \<rparr>]
   \<and> map (\<lambda>r. (e_id r, e_status r, e_stderr r))
        (executions (snd (processExecution refused_worker_env (sample_job ''sess-1'' 0)
                            queued_world))) = [(''exec-1'', FAILED, Some [])]"
  by (simp add: processExecution_def processExecution_try_def run_and_store_def
      updateStarted_result updateResult_result query_def Let_def new_statements_def
      refused_worker_env_def sample_worker_env_def sample_job_def queued_world_def
      sample_world_def new_Error_def inserted_row_def result_row_def started_row_def
      logExecutionEvent_def)

end
